theory Spec2Isabelle
  imports Main
begin

section \<open>The authentication usecase of the parental-account server\<close>

text \<open>
  The usecase layer (package \<open>usecase\<close>, type \<open>authUsecase\<close>) orchestrates four
  operations over six injected collaborators: \<open>SendCertifyCodeToPhone\<close>,
  \<open>CertifyPhoneWithCode\<close>, \<open>SignUpParent\<close> and \<open>LoginParentAuth\<close>.
  The collaborators are Go interfaces; their implementations are arbitrary and may
  keep state (a database, an SMS gateway, a random source). The embedding therefore
  threads an abstract world \<open>'w\<close> through every collaborator call, and keeps a log of
  the calls made, in order. Every theorem below holds for all collaborators and all
  worlds.
\<close>

subsection \<open>Domain data\<close>

text \<open>\<open>sql.NullBool\<close> and \<open>sql.NullString\<close>: a value and a flag saying it is not NULL.\<close>

record NullBool =
  Bool :: bool
  Valid :: bool

record NullString =
  String :: string
  Valid :: bool

text \<open>
  \<open>domain.ParentPhoneCertify\<close> and \<open>domain.ParentAuth\<close>, with the fields the usecase
  and the HTTP handler read or write. \<open>CertifyCode\<close> is an \<open>int64\<close>; the usecase only
  compares and prints it, so it is an \<open>int\<close> here.
\<close>

record ParentPhoneCertify =
  ParentUUID :: NullString
  PhoneNumber :: string
  CertifyCode :: int
  Certified :: NullBool

record ParentAuth =
  UUID :: string
  ID :: string
  PW :: string
  Name :: string

text \<open>The zero values Go gives to fields that a composite literal leaves out.\<close>

definition zeroNullBool :: NullBool where
  "zeroNullBool = \<lparr>Bool = False, NullBool.Valid = False\<rparr>"

definition zeroNullString :: NullString where
  "zeroNullString = \<lparr>String = [], NullString.Valid = False\<rparr>"

text \<open>The transaction scope \<open>tx.Context\<close> is opaque to the usecase.\<close>

type_synonym tx_Context = nat

subsection \<open>Errors\<close>

text \<open>
  An \<open>error\<close> value returned by a collaborator. The usecase classifies it with type
  switches and type assertions against the interfaces \<open>rowNotExistErr\<close>,
  \<open>invalidModelErr\<close>, \<open>entryDuplicateErr\<close> (which has the method \<open>DuplicateKey\<close>) and
  \<open>interface{ Mismatch() }\<close>. A Go value may satisfy several of them, so the model
  records each one separately; the order of the cases in the source decides.
\<close>

record go_error =
  Error :: string
  rowNotExistErr :: bool
  invalidModelErr :: bool
  entryDuplicateErr :: "string option"
  Mismatch :: bool

text \<open>\<open>errors.New\<close> and \<open>errors.Wrap\<close> of \<open>github.com/pkg/errors\<close>.\<close>

datatype errors = New string | Wrap go_error string

text \<open>
  The sub-reason codes of a conflict. They are named constants of the usecase package;
  the usecase never looks at their numeric values.
\<close>

datatype conflict_code =
    phoneAlreadyInUse
  | phoneAlreadyCertified
  | incorrectCertifyCode
  | parentIDAlreadyInUse
  | uncertifiedPhone
  | incorrectParentPW
  | notExistParentID

text \<open>
  What an operation returns as \<open>err\<close>: a bare wrapped error (when the transaction cannot
  be begun) or one of the classified errors \<open>conflictErr\<close>, \<open>internalServerErr\<close>,
  \<open>notFoundErr\<close>. A \<open>nil\<close> error is \<open>None\<close>.
\<close>

datatype usecase_error =
    bareErr errors
  | conflictErr errors conflict_code
  | internalServerErr errors
  | notFoundErr errors

subsection \<open>Collaborators\<close>

text \<open>
  A Go function with results \<open>(v, err)\<close> returns both, whatever \<open>err\<close> is: the model
  returns the pair, and the new world. \<open>Store\<close> and \<open>Update\<close> receive a pointer to the
  record and may write through it: in the model they return, beside the error, the
  record as they leave it, and the usecase goes on with that record.
\<close>

record 'w txHandler =
  BeginTx :: "'w \<Rightarrow> (tx_Context \<times> go_error option) \<times> 'w"
  Commit :: "tx_Context \<Rightarrow> 'w \<Rightarrow> go_error option \<times> 'w"
  Rollback :: "tx_Context \<Rightarrow> 'w \<Rightarrow> go_error option \<times> 'w"

record 'w messageAgency =
  SendSMSToOne :: "string \<Rightarrow> string \<Rightarrow> 'w \<Rightarrow> go_error option \<times> 'w"

record 'w hashHandler =
  GenerateHashWithMinSalt :: "string \<Rightarrow> 'w \<Rightarrow> (string \<times> go_error option) \<times> 'w"
  CompareHashAndPW :: "string \<Rightarrow> string \<Rightarrow> 'w \<Rightarrow> go_error option \<times> 'w"

record 'w jwtHandler =
  GenerateUUIDJWT :: "string \<Rightarrow> string \<Rightarrow> int \<Rightarrow> 'w \<Rightarrow> (string \<times> go_error option) \<times> 'w"

record 'w ParentAuthRepository =
  GetByID :: "tx_Context \<Rightarrow> string \<Rightarrow> 'w \<Rightarrow> (ParentAuth \<times> go_error option) \<times> 'w"
  GetAvailableUUID :: "tx_Context \<Rightarrow> 'w \<Rightarrow> (string \<times> go_error option) \<times> 'w"
  Store :: "tx_Context \<Rightarrow> ParentAuth \<Rightarrow> 'w \<Rightarrow> (ParentAuth \<times> go_error option) \<times> 'w"

record 'w ParentPhoneCertifyRepository =
  GetByPhoneNumber :: "tx_Context \<Rightarrow> string \<Rightarrow> 'w \<Rightarrow> (ParentPhoneCertify \<times> go_error option) \<times> 'w"
  Update :: "tx_Context \<Rightarrow> ParentPhoneCertify \<Rightarrow> 'w \<Rightarrow> (ParentPhoneCertify \<times> go_error option) \<times> 'w"
  Store :: "tx_Context \<Rightarrow> ParentPhoneCertify \<Rightarrow> 'w \<Rightarrow> (ParentPhoneCertify \<times> go_error option) \<times> 'w"

text \<open>
  The random generators are methods of the domain structs; they read the process's
  random source and return a value, leaving their receiver as it is. \<open>randomSource\<close>
  draws a natural number from that source.
\<close>

record 'w domain =
  randomSource :: "'w \<Rightarrow> nat \<times> 'w"
  GenerateRandomUUID :: "ParentAuth \<Rightarrow> 'w \<Rightarrow> string \<times> 'w"

record 'w authUsecase =
  parentAuthRepository :: "'w ParentAuthRepository"
  parentPhoneCertifyRepository :: "'w ParentPhoneCertifyRepository"
  txHandler :: "'w txHandler"
  messageAgency :: "'w messageAgency"
  hashHandler :: "'w hashHandler"
  jwtHandler :: "'w jwtHandler"

subsection \<open>The log of collaborator calls\<close>

datatype call =
    BeginTx_call
  | Commit_call tx_Context
  | Rollback_call tx_Context
  | GetByPhoneNumber_call tx_Context string
  | Update_call tx_Context ParentPhoneCertify
  | Store_call tx_Context ParentPhoneCertify
  | GetByID_call tx_Context string
  | GetAvailableUUID_call tx_Context
  | StoreParentAuth_call tx_Context ParentAuth
  | SendSMSToOne_call string string
  | GenerateHashWithMinSalt_call string
  | CompareHashAndPW_call string string
  | GenerateUUIDJWT_call string string int

type_synonym 'w session = "call list \<times> 'w"

text \<open>\<open>invoke c f\<close> runs the collaborator method \<open>f\<close> on the world and logs the call \<open>c\<close>.\<close>

definition invoke :: "call \<Rightarrow> ('w \<Rightarrow> 'a \<times> 'w) \<Rightarrow> 'w session \<Rightarrow> 'a \<times> 'w session" where
  "invoke c f s = (case f (snd s) of (r, w') \<Rightarrow> (r, (fst s @ [c], w')))"

text \<open>\<open>draw f\<close> runs a domain generator on the world; it is no collaborator call.\<close>

definition draw :: "('w \<Rightarrow> 'a \<times> 'w) \<Rightarrow> 'w session \<Rightarrow> 'a \<times> 'w session" where
  "draw f s = (case f (snd s) of (r, w') \<Rightarrow> (r, (fst s, w')))"

text \<open>
  The two ways an operation leaves once its transaction is open:
  \<^verbatim>\<open>err = e; _ = au.txHandler.Rollback(_tx); return\<close> and
  \<^verbatim>\<open>_ = au.txHandler.Commit(_tx); return nil\<close>. The result of \<open>Rollback\<close> and of
  \<open>Commit\<close> is assigned to the blank identifier.
\<close>

definition rollbackReturn ::
  "'w authUsecase \<Rightarrow> tx_Context \<Rightarrow> usecase_error \<Rightarrow> 'w session \<Rightarrow> usecase_error option \<times> 'w session" where
  "rollbackReturn au tx e s =
     (case invoke (Rollback_call tx) (Rollback (txHandler au) tx) s of
        (_, s') \<Rightarrow> (Some e, s'))"

definition commitReturn ::
  "'w authUsecase \<Rightarrow> tx_Context \<Rightarrow> 'w session \<Rightarrow> usecase_error option \<times> 'w session" where
  "commitReturn au tx s =
     (case invoke (Commit_call tx) (Commit (txHandler au) tx) s of
        (_, s') \<Rightarrow> (None, s'))"

subsection \<open>The certify code and the SMS text\<close>

text \<open>
  Modelled from the spec: the method \<open>GenerateCertifyCode\<close> of
  \<open>domain.ParentPhoneCertify\<close> is declared in the domain package, outside the usecase
  source embedded here. The spec calls the certify code "6-digit numeric" and "a new
  random numeric code": the model draws a natural number from the random source and
  maps it into the six-digit numbers.
\<close>

definition GenerateCertifyCode :: "nat \<Rightarrow> int" where
  "GenerateCertifyCode r = 100000 + int (r mod 900000)"

text \<open>Modelled from the spec: the valid numeric range of a code, "6-digit numeric".\<close>

definition validCertifyCode :: "int \<Rightarrow> bool" where
  "validCertifyCode c \<longleftrightarrow> 100000 \<le> c \<and> c \<le> 999999"

text \<open>The verb \<open>%d\<close> of \<open>fmt.Sprintf\<close> on an integer.\<close>

fun digits :: "nat \<Rightarrow> string" where
  "digits n =
     (if n < 10 then [''0123456789'' ! n]
      else digits (n div 10) @ [''0123456789'' ! (n mod 10)])"

declare digits.simps [simp del]

definition format_d :: "int \<Rightarrow> string" where
  "format_d i = (if i < 0 then CHR ''-'' # digits (nat (- i)) else digits (nat i))"

text \<open>The bytes (UTF-8) of the format string of the SMS, up to its \<open>%d\<close>.\<close>

definition smsPrefix :: string where
  "smsPrefix = map char_of
     [0x5B, 0xEC, 0x9C, 0xA1, 0xEC, 0x95, 0x84, 0xEB, 0x8A, 0x94, 0x20, 0xEC, 0xB2, 0x98,
      0xEC, 0x9D, 0x8C, 0xEC, 0x9D, 0xB4, 0xEC, 0xA7, 0x80, 0x20, 0xEC, 0x9D, 0xB8, 0xEC,
      0xA6, 0x9D, 0x20, 0xEB, 0xB2, 0x88, 0xED, 0x98, 0xB8, 0x5D, 0x0A, 0xED, 0x9A, 0x8C,
      0xEC, 0x9B, 0x90, 0xEA, 0xB0, 0x80, 0xEC, 0x9E, 0x85, 0x20, 0xEC, 0x9D, 0xB8, 0xEC,
      0xA6, 0x9D, 0x20, 0xEB, 0xB2, 0x88, 0xED, 0x98, 0xB8, 0x3A, 0x20 :: nat]"

definition smsContent :: "int \<Rightarrow> string" where
  "smsContent code = smsPrefix @ format_d code"

subsection \<open>SendCertifyCodeToPhone\<close>

text \<open>
  The end of the operation, shared by the update and the store branch: send the SMS,
  roll back if that fails, commit otherwise.
\<close>

definition sendAndCommit ::
  "'w authUsecase \<Rightarrow> tx_Context \<Rightarrow> ParentPhoneCertify \<Rightarrow> 'w session \<Rightarrow> usecase_error option \<times> 'w session" where
  "sendAndCommit au tx ppc s =
     (let content = smsContent (CertifyCode ppc) in
      case invoke (SendSMSToOne_call (PhoneNumber ppc) content)
             (SendSMSToOne (messageAgency au) (PhoneNumber ppc) content) s of
        (Some e, s1) \<Rightarrow>
          rollbackReturn au tx
            (internalServerErr (Wrap e ''SendSMSToOne return unexpected error'')) s1
      | (None, s1) \<Rightarrow> commitReturn au tx s1)"

definition SendCertifyCodeToPhone ::
  "'w domain \<Rightarrow> 'w authUsecase \<Rightarrow> string \<Rightarrow> 'w session \<Rightarrow> usecase_error option \<times> 'w session" where
  "SendCertifyCodeToPhone dm au pn s0 =
     (case invoke BeginTx_call (BeginTx (txHandler au)) s0 of
        ((tx, Some e), s1) \<Rightarrow> (Some (bareErr (Wrap e ''failed to begin transaction'')), s1)
      | ((tx, None), s1) \<Rightarrow>
         (case invoke (GetByPhoneNumber_call tx pn)
                 (GetByPhoneNumber (parentPhoneCertifyRepository au) tx pn) s1 of
            ((ppc, None), s2) \<Rightarrow>
              if NullString.Valid (ParentUUID ppc) then
                rollbackReturn au tx
                  (conflictErr (New ''this phone number is already in use'') phoneAlreadyInUse) s2
              else
                (case draw (randomSource dm) s2 of
                   (r, s3) \<Rightarrow>
                     let ppc1 = ppc\<lparr>CertifyCode := GenerateCertifyCode r\<rparr>;
                         ppc2 = ppc1\<lparr>Certified := \<lparr>Bool = False, NullBool.Valid = True\<rparr>\<rparr>
                     in (case invoke (Update_call tx ppc2)
                                (Update (parentPhoneCertifyRepository au) tx ppc2) s3 of
                           ((ppc3, None), s4) \<Rightarrow> sendAndCommit au tx ppc3 s4
                         | ((ppc3, Some e), s4) \<Rightarrow>
                             rollbackReturn au tx
                               (internalServerErr (Wrap e ''phone Update return unexpected error'')) s4))
          | ((ppc, Some e), s2) \<Rightarrow>
              if rowNotExistErr e then
                (let ppc0 = \<lparr>ParentUUID = zeroNullString, PhoneNumber = pn,
                             CertifyCode = 0, Certified = zeroNullBool\<rparr>
                 in case draw (randomSource dm) s2 of
                      (r, s3) \<Rightarrow>
                        let ppc1 = ppc0\<lparr>CertifyCode := GenerateCertifyCode r\<rparr>
                        in (case invoke (Store_call tx ppc1)
                                   (ParentPhoneCertifyRepository.Store
                                      (parentPhoneCertifyRepository au) tx ppc1) s3 of
                              ((ppc2, None), s4) \<Rightarrow> sendAndCommit au tx ppc2 s4
                            | ((ppc2, Some e'), s4) \<Rightarrow>
                                rollbackReturn au tx
                                  (internalServerErr (Wrap e' ''phone Store return unexpected error'')) s4))
              else
                rollbackReturn au tx
                  (internalServerErr (Wrap e ''GetByPhoneNumber return unexpected error'')) s2))"

subsection \<open>CertifyPhoneWithCode\<close>

definition CertifyPhoneWithCode ::
  "'w authUsecase \<Rightarrow> string \<Rightarrow> int \<Rightarrow> 'w session \<Rightarrow> usecase_error option \<times> 'w session" where
  "CertifyPhoneWithCode au pn code s0 =
     (case invoke BeginTx_call (BeginTx (txHandler au)) s0 of
        ((tx, Some e), s1) \<Rightarrow> (Some (bareErr (Wrap e ''failed to begin transaction'')), s1)
      | ((tx, None), s1) \<Rightarrow>
         (case invoke (GetByPhoneNumber_call tx pn)
                 (GetByPhoneNumber (parentPhoneCertifyRepository au) tx pn) s1 of
            ((ppc, None), s2) \<Rightarrow>
              if NullBool.Valid (Certified ppc) \<and> Bool (Certified ppc) then
                rollbackReturn au tx
                  (conflictErr (New ''this phone number is already certified'')
                     phoneAlreadyCertified) s2
              else if code \<noteq> CertifyCode ppc then
                rollbackReturn au tx
                  (conflictErr (New ''incorrect certify code to that phone number'')
                     incorrectCertifyCode) s2
              else
                (let ppc1 = ppc\<lparr>Certified := \<lparr>Bool = True, NullBool.Valid = True\<rparr>\<rparr>
                 in case invoke (Update_call tx ppc1)
                           (Update (parentPhoneCertifyRepository au) tx ppc1) s2 of
                      ((ppc2, None), s3) \<Rightarrow> commitReturn au tx s3
                    | ((ppc2, Some e), s3) \<Rightarrow>
                        rollbackReturn au tx
                          (internalServerErr (Wrap e ''phone Update return unexpected error'')) s3)
          | ((ppc, Some e), s2) \<Rightarrow>
              if rowNotExistErr e then
                rollbackReturn au tx (notFoundErr (New ''not exist phone number'')) s2
              else
                rollbackReturn au tx
                  (internalServerErr (Wrap e ''GetByPhoneNumber return unexpected error'')) s2))"

subsection \<open>SignUpParent\<close>

text \<open>
  \<open>SignUpParent\<close> receives a pointer to the account and writes its \<open>PW\<close> and \<open>UUID\<close>
  fields, and hands the pointer on to \<open>Store\<close>; the model returns the account as the
  caller finds it afterwards.
\<close>

definition leaving ::
  "ParentAuth \<Rightarrow> usecase_error option \<times> 'w session \<Rightarrow> (usecase_error option \<times> ParentAuth) \<times> 'w session" where
  "leaving pa x = (case x of (err, s) \<Rightarrow> ((err, pa), s))"

text \<open>The type switch on the error of the account store, in the order of its cases.\<close>

definition storeParentAuthErr :: "go_error \<Rightarrow> usecase_error" where
  "storeParentAuthErr e =
     (if invalidModelErr e then
        internalServerErr (Wrap e ''parent auth Store return invalid model'')
      else case entryDuplicateErr e of
        Some k \<Rightarrow>
          if k = ''id'' then
            conflictErr (New ''this parent ID is already in use'') parentIDAlreadyInUse
          else
            internalServerErr (Wrap e ''parent auth Store return unexpected duplicate error'')
      | None \<Rightarrow> internalServerErr (Wrap e ''parent auth Store return unexpected error''))"

definition SignUpParent ::
  "'w domain \<Rightarrow> 'w authUsecase \<Rightarrow> ParentAuth \<Rightarrow> string \<Rightarrow> 'w session \<Rightarrow>
     (usecase_error option \<times> ParentAuth) \<times> 'w session" where
  "SignUpParent dm au pa pn s0 =
     (case invoke BeginTx_call (BeginTx (txHandler au)) s0 of
        ((tx, Some e), s1) \<Rightarrow>
          ((Some (bareErr (Wrap e ''failed to begin transaction'')), pa), s1)
      | ((tx, None), s1) \<Rightarrow>
         (case invoke (GetByPhoneNumber_call tx pn)
                 (GetByPhoneNumber (parentPhoneCertifyRepository au) tx pn) s1 of
            ((ppc, err), s2) \<Rightarrow>
              if err = None \<and> NullBool.Valid (Certified ppc) \<and> Bool (Certified ppc) then
                (case invoke (GenerateHashWithMinSalt_call (PW pa))
                        (GenerateHashWithMinSalt (hashHandler au) (PW pa)) s2 of
                   ((h, Some e), s3) \<Rightarrow>
                     leaving (pa\<lparr>PW := h\<rparr>)
                       (rollbackReturn au tx
                          (internalServerErr (Wrap e ''failed to GenerateHashWithMinSalt'')) s3)
                 | ((h, None), s3) \<Rightarrow>
                     (let pa1 = pa\<lparr>PW := h\<rparr> in
                      case invoke (GetAvailableUUID_call tx)
                             (GetAvailableUUID (parentAuthRepository au) tx) s3 of
                        ((u, uerr), s4) \<Rightarrow>
                          (let pa2 = pa1\<lparr>UUID := u\<rparr> in
                           case (case uerr of
                                   None \<Rightarrow> (pa2, s4)
                                 | Some _ \<Rightarrow>
                                     (case draw (GenerateRandomUUID dm pa2) s4 of
                                        (u', s5) \<Rightarrow> (pa2\<lparr>UUID := u'\<rparr>, s5))) of
                             (pa3, s5) \<Rightarrow>
                               (case invoke (StoreParentAuth_call tx pa3)
                                       (ParentAuthRepository.Store
                                          (parentAuthRepository au) tx pa3) s5 of
                                  ((pa4, None), s6) \<Rightarrow> leaving pa4 (commitReturn au tx s6)
                                | ((pa4, Some e), s6) \<Rightarrow>
                                    leaving pa4
                                      (rollbackReturn au tx (storeParentAuthErr e) s6)))))
              else
                (case err of
                   None \<Rightarrow>
                     leaving pa
                       (rollbackReturn au tx
                          (conflictErr (New ''this phone number is not certified'')
                             uncertifiedPhone) s2)
                 | Some e \<Rightarrow>
                     if rowNotExistErr e then
                       leaving pa
                         (rollbackReturn au tx
                            (conflictErr (New ''this phone number is not certified'')
                               uncertifiedPhone) s2)
                     else
                       leaving pa
                         (rollbackReturn au tx
                            (internalServerErr
                               (Wrap e ''GetByPhoneNumber return unexpected error'')) s2))))"

subsection \<open>LoginParentAuth\<close>

text \<open>\<open>time.Hour\<close>, in nanoseconds.\<close>

definition Hour :: int where
  "Hour = 3600000000000"

text \<open>
  The results \<open>uuid\<close> and \<open>token\<close> are named; a \<open>return\<close> before they are assigned
  returns them empty.
\<close>

definition failing ::
  "usecase_error option \<times> 'w session \<Rightarrow> (string \<times> string \<times> usecase_error option) \<times> 'w session" where
  "failing x = (case x of (err, s) \<Rightarrow> (([], [], err), s))"

definition LoginParentAuth ::
  "'w authUsecase \<Rightarrow> string \<Rightarrow> string \<Rightarrow> 'w session \<Rightarrow>
     (string \<times> string \<times> usecase_error option) \<times> 'w session" where
  "LoginParentAuth au id' pw s0 =
     (case invoke BeginTx_call (BeginTx (txHandler au)) s0 of
        ((tx, Some e), s1) \<Rightarrow>
          (([], [], Some (bareErr (Wrap e ''failed to begin transaction''))), s1)
      | ((tx, None), s1) \<Rightarrow>
         (case invoke (GetByID_call tx id') (GetByID (parentAuthRepository au) tx id') s1 of
            ((pa, None), s2) \<Rightarrow>
              (case invoke (CompareHashAndPW_call (PW pa) pw)
                      (CompareHashAndPW (hashHandler au) (PW pa) pw) s2 of
                 (None, s3) \<Rightarrow>
                   (case invoke (GenerateUUIDJWT_call (UUID pa) ''access_token'' (Hour * 24))
                           (GenerateUUIDJWT (jwtHandler au) (UUID pa) ''access_token'' (Hour * 24))
                           s3 of
                      ((token, jerr), s4) \<Rightarrow>
                        (case invoke (Commit_call tx) (Commit (txHandler au) tx) s4 of
                           (_, s5) \<Rightarrow> ((UUID pa, token, None), s5)))
               | (Some e, s3) \<Rightarrow>
                   if Mismatch e then
                     failing (rollbackReturn au tx
                       (conflictErr (New ''incorrect password'') incorrectParentPW) s3)
                   else
                     failing (rollbackReturn au tx
                       (internalServerErr
                          (Wrap e ''CompareHashAndPW return unexpected error'')) s3))
          | ((pa, Some e), s2) \<Rightarrow>
              if rowNotExistErr e then
                failing (rollbackReturn au tx
                  (conflictErr (New ''not exist parent ID'') notExistParentID) s2)
              else
                failing (rollbackReturn au tx
                  (internalServerErr (Wrap e ''GetByID return unexpected error'')) s2)))"

subsection \<open>Observing an outcome\<close>

text \<open>The collaborator calls an operation made, in order.\<close>

definition calls :: "'a \<times> 'w session \<Rightarrow> call list" where
  "calls x = fst (snd x)"

fun isResolution :: "call \<Rightarrow> bool" where
  "isResolution (Commit_call _) = True"
| "isResolution (Rollback_call _) = True"
| "isResolution _ = False"

fun isCommit :: "call \<Rightarrow> bool" where
  "isCommit (Commit_call _) = True"
| "isCommit _ = False"

fun isPhoneWrite :: "call \<Rightarrow> bool" where
  "isPhoneWrite (Update_call _ _) = True"
| "isPhoneWrite (Store_call _ _) = True"
| "isPhoneWrite _ = False"

fun isAccountStore :: "call \<Rightarrow> bool" where
  "isAccountStore (StoreParentAuth_call _ _) = True"
| "isAccountStore _ = False"

fun isSMS :: "call \<Rightarrow> bool" where
  "isSMS (SendSMSToOne_call _ _) = True"
| "isSMS _ = False"


text \<open>The certification record counts as certified: the test the usecase itself makes.\<close>

definition certified :: "ParentPhoneCertify \<Rightarrow> bool" where
  "certified ppc \<longleftrightarrow> NullBool.Valid (Certified ppc) \<and> Bool (Certified ppc)"

text \<open>
  Whenever \<open>Commit\<close> was called, the operation returned a \<open>nil\<close> error. The two
  projections bring the results of \<open>SignUpParent\<close> and \<open>LoginParentAuth\<close> to the shape
  of the other two operations.
\<close>

definition commitIgnored :: "usecase_error option \<times> 'w session \<Rightarrow> bool" where
  "commitIgnored x \<longleftrightarrow> (filter isCommit (calls x) \<noteq> [] \<longrightarrow> fst x = None)"

definition errOfSignUp ::
  "(usecase_error option \<times> ParentAuth) \<times> 'w session \<Rightarrow> usecase_error option \<times> 'w session" where
  "errOfSignUp x = (fst (fst x), snd x)"

definition errOfLogin ::
  "(string \<times> string \<times> usecase_error option) \<times> 'w session \<Rightarrow> usecase_error option \<times> 'w session" where
  "errOfLogin x = (snd (snd (fst x)), snd x)"

subsection \<open>Sample collaborators\<close>

text \<open>
  A small in-memory world: a phone table, an account table, the SMS sent, and a counter
  standing for the random source. The transaction handler hands out the scope \<open>1\<close> and
  keeps no snapshot.
\<close>

record world =
  phones :: "ParentPhoneCertify list"
  accounts :: "ParentAuth list"
  outbox :: "(string \<times> string) list"
  entropy :: nat

definition plainError :: "string \<Rightarrow> go_error" where
  "plainError msg = \<lparr>Error = msg, rowNotExistErr = False, invalidModelErr = False,
                      entryDuplicateErr = None, Mismatch = False\<rparr>"

definition noRows :: go_error where
  "noRows = (plainError ''no rows'')\<lparr>rowNotExistErr := True\<rparr>"

definition mismatch :: go_error where
  "mismatch = (plainError ''mismatch'')\<lparr>Mismatch := True\<rparr>"

definition duplicate :: "string \<Rightarrow> go_error" where
  "duplicate k = (plainError ''duplicate'')\<lparr>entryDuplicateErr := Some k\<rparr>"

definition sampleTx :: "world txHandler" where
  "sampleTx = \<lparr>BeginTx = (\<lambda>w. ((1, None), w)),
               Commit = (\<lambda>tx w. (None, w)),
               Rollback = (\<lambda>tx w. (None, w))\<rparr>"

definition sampleMessages :: "world messageAgency" where
  "sampleMessages = \<lparr>SendSMSToOne = (\<lambda>rc c w. (None, w\<lparr>outbox := outbox w @ [(rc, c)]\<rparr>))\<rparr>"

definition sampleHash :: "world hashHandler" where
  "sampleHash =
     \<lparr>GenerateHashWithMinSalt = (\<lambda>pw w. ((''h:'' @ pw, None), w)),
      CompareHashAndPW = (\<lambda>h pw w. (if h = ''h:'' @ pw then None else Some mismatch, w))\<rparr>"

definition sampleJwt :: "world jwtHandler" where
  "sampleJwt = \<lparr>GenerateUUIDJWT = (\<lambda>u t d w. ((''jwt:'' @ u, None), w))\<rparr>"

definition samplePhones :: "world ParentPhoneCertifyRepository" where
  "samplePhones =
     \<lparr>GetByPhoneNumber = (\<lambda>tx pn w.
        case find (\<lambda>p. PhoneNumber p = pn) (phones w) of
          Some p \<Rightarrow> ((p, None), w)
        | None \<Rightarrow> ((\<lparr>ParentUUID = zeroNullString, PhoneNumber = [], CertifyCode = 0,
                      Certified = zeroNullBool\<rparr>, Some noRows), w)),
      Update = (\<lambda>tx p w.
        ((p, None),
         w\<lparr>phones := map (\<lambda>q. if PhoneNumber q = PhoneNumber p then p else q) (phones w)\<rparr>)),
      ParentPhoneCertifyRepository.Store =
        (\<lambda>tx p w. ((p, None), w\<lparr>phones := phones w @ [p]\<rparr>))\<rparr>"

definition sampleAccounts :: "world ParentAuthRepository" where
  "sampleAccounts =
     \<lparr>GetByID = (\<lambda>tx i w.
        case find (\<lambda>a. ID a = i) (accounts w) of
          Some a \<Rightarrow> ((a, None), w)
        | None \<Rightarrow> ((\<lparr>UUID = [], ID = [], PW = [], Name = []\<rparr>, Some noRows), w)),
      GetAvailableUUID = (\<lambda>tx w. (([], Some noRows), w)),
      ParentAuthRepository.Store = (\<lambda>tx a w.
        if ID a \<in> set (map ID (accounts w)) then ((a, Some (duplicate ''id'')), w)
        else ((a, None), w\<lparr>accounts := accounts w @ [a]\<rparr>))\<rparr>"

definition sampleDomain :: "world domain" where
  "sampleDomain =
     \<lparr>randomSource = (\<lambda>w. (entropy w, w\<lparr>entropy := Suc (entropy w)\<rparr>)),
      GenerateRandomUUID = (\<lambda>pa w. (''p2'', w\<lparr>entropy := Suc (entropy w)\<rparr>))\<rparr>"

definition sample :: "world authUsecase" where
  "sample = \<lparr>parentAuthRepository = sampleAccounts,
             parentPhoneCertifyRepository = samplePhones,
             txHandler = sampleTx,
             messageAgency = sampleMessages,
             hashHandler = sampleHash,
             jwtHandler = sampleJwt\<rparr>"

text \<open>
  The same usecase with one collaborator replaced: a hash handler that fails, a hash
  handler that returns the password as it is, a token handler that fails, a commit that
  fails, a phone store that fails, a phone update that fails, and an SMS agency that
  fails.
\<close>

definition sampleHashIdentity :: "world authUsecase" where
  "sampleHashIdentity =
     sample\<lparr>hashHandler :=
       sampleHash\<lparr>GenerateHashWithMinSalt := (\<lambda>pw w. ((pw, None), w))\<rparr>\<rparr>"

definition sampleStoreFails :: "world authUsecase" where
  "sampleStoreFails =
     sample\<lparr>parentPhoneCertifyRepository :=
       samplePhones\<lparr>ParentPhoneCertifyRepository.Store :=
         (\<lambda>tx p w. ((p, Some (plainError ''store failed'')), w))\<rparr>\<rparr>"

definition sampleUpdateFails :: "world authUsecase" where
  "sampleUpdateFails =
     sample\<lparr>parentPhoneCertifyRepository :=
       samplePhones\<lparr>Update := (\<lambda>tx p w. ((p, Some (plainError ''update failed'')), w))\<rparr>\<rparr>"

definition sampleSmsFails :: "world authUsecase" where
  "sampleSmsFails =
     sample\<lparr>messageAgency :=
       \<lparr>SendSMSToOne = (\<lambda>rc c w. (Some (plainError ''sms failed''), w))\<rparr>\<rparr>"

definition sampleHashFails :: "world authUsecase" where
  "sampleHashFails =
     sample\<lparr>hashHandler :=
       sampleHash\<lparr>GenerateHashWithMinSalt :=
         (\<lambda>pw w. (([], Some (plainError ''hashing failed'')), w))\<rparr>\<rparr>"

definition sampleJwtFails :: "world authUsecase" where
  "sampleJwtFails =
     sample\<lparr>jwtHandler :=
       \<lparr>GenerateUUIDJWT = (\<lambda>u t d w. (([], Some (plainError ''signing failed'')), w))\<rparr>\<rparr>"

definition sampleCommitFails :: "world authUsecase" where
  "sampleCommitFails =
     sample\<lparr>txHandler := sampleTx\<lparr>Commit := (\<lambda>tx w. (Some (plainError ''commit failed''), w))\<rparr>\<rparr>"

text \<open>
  A world with an uncertified number, a certified number not yet bound to an account, a
  number bound to an account, and one account whose password is \<open>secret\<close>.
\<close>

definition pendingPhone :: ParentPhoneCertify where
  "pendingPhone = \<lparr>ParentUUID = zeroNullString, PhoneNumber = ''01000000001'',
                   CertifyCode = 123456, Certified = \<lparr>Bool = False, NullBool.Valid = True\<rparr>\<rparr>"

definition certifiedPhone :: ParentPhoneCertify where
  "certifiedPhone = \<lparr>ParentUUID = zeroNullString, PhoneNumber = ''01000000002'',
                     CertifyCode = 654321, Certified = \<lparr>Bool = True, NullBool.Valid = True\<rparr>\<rparr>"

definition boundPhone :: ParentPhoneCertify where
  "boundPhone = \<lparr>ParentUUID = \<lparr>String = ''p1'', NullString.Valid = True\<rparr>,
                 PhoneNumber = ''01000000003'',
                 CertifyCode = 111111, Certified = \<lparr>Bool = True, NullBool.Valid = True\<rparr>\<rparr>"

definition mom :: ParentAuth where
  "mom = \<lparr>UUID = ''p1'', ID = ''mom'', PW = ''h:secret'', Name = ''Mom''\<rparr>"

definition world0 :: world where
  "world0 = \<lparr>phones = [pendingPhone, certifiedPhone, boundPhone], accounts = [mom],
             outbox = [], entropy = 7\<rparr>"

lemmas sample_defs =
  sample_def sampleJwtFails_def sampleCommitFails_def sampleHashFails_def sampleTx_def
  sampleHashIdentity_def sampleStoreFails_def sampleUpdateFails_def sampleSmsFails_def
  sampleMessages_def sampleHash_def sampleJwt_def samplePhones_def sampleAccounts_def
  sampleDomain_def
  world0_def pendingPhone_def certifiedPhone_def boundPhone_def mom_def
  plainError_def noRows_def mismatch_def duplicate_def zeroNullBool_def zeroNullString_def

lemmas run_defs =
  SendCertifyCodeToPhone_def CertifyPhoneWithCode_def SignUpParent_def LoginParentAuth_def
  sendAndCommit_def invoke_def draw_def rollbackReturn_def commitReturn_def leaving_def
  failing_def calls_def Let_def GenerateCertifyCode_def

section \<open>Properties\<close>

subsection \<open>One step at a time\<close>

lemma invoke_eq:
  "invoke c f s = (r, s') \<longleftrightarrow> f (snd s) = (r, snd s') \<and> fst s' = fst s @ [c]"
  by (cases s'; cases s) (auto simp: invoke_def split: prod.splits)

lemma draw_eq:
  "draw f s = (r, s') \<longleftrightarrow> f (snd s) = (r, snd s') \<and> fst s' = fst s"
  by (cases s'; cases s) (auto simp: draw_def split: prod.splits)

lemma calls_pair: "calls (r, s) = fst s"
  by (simp add: calls_def)

lemma rollbackReturn_fst: "fst (rollbackReturn au tx e s) = Some e"
  by (simp add: rollbackReturn_def split: prod.splits)

lemma rollbackReturn_calls: "calls (rollbackReturn au tx e s) = fst s @ [Rollback_call tx]"
  by (simp add: rollbackReturn_def calls_def invoke_eq split: prod.splits)

lemma commitReturn_fst: "fst (commitReturn au tx s) = None"
  by (simp add: commitReturn_def split: prod.splits)

lemma commitReturn_calls: "calls (commitReturn au tx s) = fst s @ [Commit_call tx]"
  by (simp add: commitReturn_def calls_def invoke_eq split: prod.splits)

lemma calls_leaving: "calls (leaving pa x) = calls x"
  by (simp add: leaving_def calls_def split: prod.splits)

lemma fst_leaving: "fst (fst (leaving pa x)) = fst x"
  by (simp add: leaving_def split: prod.splits)

lemma calls_failing: "calls (failing x) = calls x"
  by (simp add: failing_def calls_def split: prod.splits)

lemma fst_failing: "fst (failing x) = ([], [], fst x)"
  by (simp add: failing_def split: prod.splits)

lemmas ret_simps =
  rollbackReturn_fst rollbackReturn_calls commitReturn_fst commitReturn_calls
  calls_leaving fst_leaving calls_failing fst_failing

text \<open>The same steps as equations, for a path whose answers are known.\<close>

lemma invoke_known:
  "f (snd s) = (r, w') \<Longrightarrow> invoke c f s = (r, (fst s @ [c], w'))"
  by (simp add: invoke_def)

lemma draw_known:
  "f (snd s) = (r, w') \<Longrightarrow> draw f s = (r, (fst s, w'))"
  by (simp add: draw_def)

lemma rollbackReturn_eq:
  "rollbackReturn au tx e s =
     (Some e, (fst s @ [Rollback_call tx], snd (Rollback (txHandler au) tx (snd s))))"
  by (simp add: rollbackReturn_def invoke_def split: prod.splits)

lemma commitReturn_eq:
  "commitReturn au tx s =
     (None, (fst s @ [Commit_call tx], snd (Commit (txHandler au) tx (snd s))))"
  by (simp add: commitReturn_def invoke_def split: prod.splits)

subsection \<open>The paths of SendCertifyCodeToPhone\<close>


lemma send_path_new_store_fails:
  assumes "BeginTx (txHandler au) w = ((tx, None), w1)"
    and "GetByPhoneNumber (parentPhoneCertifyRepository au) tx pn w1 = ((ppc, Some e), w2)"
    and "rowNotExistErr e"
    and "randomSource dm w2 = (r, w3)"
    and "new = \<lparr>ParentUUID = zeroNullString, PhoneNumber = pn,
                 CertifyCode = GenerateCertifyCode r, Certified = zeroNullBool\<rparr>"
    and "ParentPhoneCertifyRepository.Store (parentPhoneCertifyRepository au) tx new w3 =
           ((new', Some e'), w4)"
  shows "SendCertifyCodeToPhone dm au pn ([], w) =
           (Some (internalServerErr (Wrap e' ''phone Store return unexpected error'')),
            ([BeginTx_call, GetByPhoneNumber_call tx pn, Store_call tx new, Rollback_call tx],
             snd (Rollback (txHandler au) tx w4)))"
  using assms
  by (simp add: SendCertifyCodeToPhone_def Let_def invoke_known draw_known rollbackReturn_eq)

lemma send_path_new_sms_fails:
  assumes "BeginTx (txHandler au) w = ((tx, None), w1)"
    and "GetByPhoneNumber (parentPhoneCertifyRepository au) tx pn w1 = ((ppc, Some e), w2)"
    and "rowNotExistErr e"
    and "randomSource dm w2 = (r, w3)"
    and "new = \<lparr>ParentUUID = zeroNullString, PhoneNumber = pn,
                 CertifyCode = GenerateCertifyCode r, Certified = zeroNullBool\<rparr>"
    and "ParentPhoneCertifyRepository.Store (parentPhoneCertifyRepository au) tx new w3 =
           ((new', None), w4)"
    and "SendSMSToOne (messageAgency au) (PhoneNumber new') (smsContent (CertifyCode new')) w4 =
           (Some e', w5)"
  shows "SendCertifyCodeToPhone dm au pn ([], w) =
           (Some (internalServerErr (Wrap e' ''SendSMSToOne return unexpected error'')),
            ([BeginTx_call, GetByPhoneNumber_call tx pn, Store_call tx new,
              SendSMSToOne_call (PhoneNumber new') (smsContent (CertifyCode new')),
              Rollback_call tx],
             snd (Rollback (txHandler au) tx w5)))"
  using assms
  by (simp add: SendCertifyCodeToPhone_def sendAndCommit_def Let_def invoke_known draw_known
        rollbackReturn_eq)

lemma send_path_new_committed:
  assumes "BeginTx (txHandler au) w = ((tx, None), w1)"
    and "GetByPhoneNumber (parentPhoneCertifyRepository au) tx pn w1 = ((ppc, Some e), w2)"
    and "rowNotExistErr e"
    and "randomSource dm w2 = (r, w3)"
    and "new = \<lparr>ParentUUID = zeroNullString, PhoneNumber = pn,
                 CertifyCode = GenerateCertifyCode r, Certified = zeroNullBool\<rparr>"
    and "ParentPhoneCertifyRepository.Store (parentPhoneCertifyRepository au) tx new w3 =
           ((new', None), w4)"
    and "SendSMSToOne (messageAgency au) (PhoneNumber new') (smsContent (CertifyCode new')) w4 =
           (None, w5)"
  shows "SendCertifyCodeToPhone dm au pn ([], w) =
           (None,
            ([BeginTx_call, GetByPhoneNumber_call tx pn, Store_call tx new,
              SendSMSToOne_call (PhoneNumber new') (smsContent (CertifyCode new')),
              Commit_call tx],
             snd (Commit (txHandler au) tx w5)))"
  using assms
  by (simp add: SendCertifyCodeToPhone_def sendAndCommit_def Let_def invoke_known draw_known
        commitReturn_eq)

subsection \<open>The paths of CertifyPhoneWithCode\<close>

lemma certify_path_already:
  assumes "BeginTx (txHandler au) w = ((tx, None), w1)"
    and "GetByPhoneNumber (parentPhoneCertifyRepository au) tx pn w1 = ((ppc, None), w2)"
    and "certified ppc"
  shows "CertifyPhoneWithCode au pn code ([], w) =
           (Some (conflictErr (New ''this phone number is already certified'') phoneAlreadyCertified),
            ([BeginTx_call, GetByPhoneNumber_call tx pn, Rollback_call tx],
             snd (Rollback (txHandler au) tx w2)))"
  using assms
  by (auto simp add: CertifyPhoneWithCode_def certified_def Let_def invoke_known rollbackReturn_eq)

lemma certify_path_absent:
  assumes "BeginTx (txHandler au) w = ((tx, None), w1)"
    and "GetByPhoneNumber (parentPhoneCertifyRepository au) tx pn w1 = ((ppc, Some e), w2)"
    and "rowNotExistErr e"
  shows "CertifyPhoneWithCode au pn code ([], w) =
           (Some (notFoundErr (New ''not exist phone number'')),
            ([BeginTx_call, GetByPhoneNumber_call tx pn, Rollback_call tx],
             snd (Rollback (txHandler au) tx w2)))"
  using assms
  by (simp add: CertifyPhoneWithCode_def invoke_known rollbackReturn_eq)

lemma certify_path_wrong_code:
  assumes "BeginTx (txHandler au) w = ((tx, None), w1)"
    and "GetByPhoneNumber (parentPhoneCertifyRepository au) tx pn w1 = ((ppc, None), w2)"
    and "\<not> certified ppc"
    and "code \<noteq> CertifyCode ppc"
  shows "CertifyPhoneWithCode au pn code ([], w) =
           (Some (conflictErr (New ''incorrect certify code to that phone number'')
                    incorrectCertifyCode),
            ([BeginTx_call, GetByPhoneNumber_call tx pn, Rollback_call tx],
             snd (Rollback (txHandler au) tx w2)))"
  using assms
  by (auto simp add: CertifyPhoneWithCode_def certified_def Let_def invoke_known rollbackReturn_eq)

lemma certify_path_updated:
  assumes "BeginTx (txHandler au) w = ((tx, None), w1)"
    and "GetByPhoneNumber (parentPhoneCertifyRepository au) tx pn w1 = ((ppc, None), w2)"
    and "\<not> certified ppc"
    and "code = CertifyCode ppc"
    and "upd = ppc\<lparr>Certified := \<lparr>Bool = True, NullBool.Valid = True\<rparr>\<rparr>"
    and "Update (parentPhoneCertifyRepository au) tx upd w2 = ((upd', None), w3)"
  shows "CertifyPhoneWithCode au pn code ([], w) =
           (None,
            ([BeginTx_call, GetByPhoneNumber_call tx pn, Update_call tx upd, Commit_call tx],
             snd (Commit (txHandler au) tx w3)))"
  using assms
  by (auto simp add: CertifyPhoneWithCode_def certified_def Let_def invoke_known commitReturn_eq)

lemma certify_path_update_fails:
  assumes "BeginTx (txHandler au) w = ((tx, None), w1)"
    and "GetByPhoneNumber (parentPhoneCertifyRepository au) tx pn w1 = ((ppc, None), w2)"
    and "\<not> certified ppc"
    and "code = CertifyCode ppc"
    and "upd = ppc\<lparr>Certified := \<lparr>Bool = True, NullBool.Valid = True\<rparr>\<rparr>"
    and "Update (parentPhoneCertifyRepository au) tx upd w2 = ((upd', Some e), w3)"
  shows "CertifyPhoneWithCode au pn code ([], w) =
           (Some (internalServerErr (Wrap e ''phone Update return unexpected error'')),
            ([BeginTx_call, GetByPhoneNumber_call tx pn, Update_call tx upd, Rollback_call tx],
             snd (Rollback (txHandler au) tx w3)))"
  using assms
  by (auto simp add: CertifyPhoneWithCode_def certified_def Let_def invoke_known rollbackReturn_eq)

subsection \<open>The paths of SignUpParent\<close>

lemma signup_path_uncertified:
  assumes "BeginTx (txHandler au) w = ((tx, None), w1)"
    and "GetByPhoneNumber (parentPhoneCertifyRepository au) tx pn w1 = ((ppc, err), w2)"
    and "(err = None \<and> \<not> certified ppc) \<or> (\<exists>e. err = Some e \<and> rowNotExistErr e)"
  shows "SignUpParent dm au pa pn ([], w) =
           ((Some (conflictErr (New ''this phone number is not certified'') uncertifiedPhone), pa),
            ([BeginTx_call, GetByPhoneNumber_call tx pn, Rollback_call tx],
             snd (Rollback (txHandler au) tx w2)))"
  using assms
  by (auto simp add: SignUpParent_def certified_def invoke_known rollbackReturn_eq leaving_def)

lemma signup_path_hash_fails:
  assumes "BeginTx (txHandler au) w = ((tx, None), w1)"
    and "GetByPhoneNumber (parentPhoneCertifyRepository au) tx pn w1 = ((ppc, None), w2)"
    and "certified ppc"
    and "GenerateHashWithMinSalt (hashHandler au) (PW pa) w2 = ((h, Some e), w3)"
  shows "SignUpParent dm au pa pn ([], w) =
           ((Some (internalServerErr (Wrap e ''failed to GenerateHashWithMinSalt'')), pa\<lparr>PW := h\<rparr>),
            ([BeginTx_call, GetByPhoneNumber_call tx pn, GenerateHashWithMinSalt_call (PW pa),
              Rollback_call tx],
             snd (Rollback (txHandler au) tx w3)))"
  using assms
  by (simp add: SignUpParent_def certified_def invoke_known rollbackReturn_eq leaving_def)

lemma signup_path_lookup_fails:
  assumes "BeginTx (txHandler au) w = ((tx, None), w1)"
    and "GetByPhoneNumber (parentPhoneCertifyRepository au) tx pn w1 = ((ppc, Some e), w2)"
    and "\<not> rowNotExistErr e"
  shows "SignUpParent dm au pa pn ([], w) =
           ((Some (internalServerErr (Wrap e ''GetByPhoneNumber return unexpected error'')), pa),
            ([BeginTx_call, GetByPhoneNumber_call tx pn, Rollback_call tx],
             snd (Rollback (txHandler au) tx w2)))"
  using assms
  by (simp add: SignUpParent_def invoke_known rollbackReturn_eq leaving_def)

lemma signup_path_stored:
  assumes "BeginTx (txHandler au) w = ((tx, None), w1)"
    and "GetByPhoneNumber (parentPhoneCertifyRepository au) tx pn w1 = ((ppc, None), w2)"
    and "certified ppc"
    and "GenerateHashWithMinSalt (hashHandler au) (PW pa) w2 = ((h, None), w3)"
    and "GetAvailableUUID (parentAuthRepository au) tx w3 = ((u, uerr), w4)"
    and "GenerateRandomUUID dm (pa\<lparr>PW := h, UUID := u\<rparr>) w4 = (u', w4')"
    and "stored = (if uerr = None then pa\<lparr>PW := h, UUID := u\<rparr> else pa\<lparr>PW := h, UUID := u'\<rparr>)"
    and "w5 = (if uerr = None then w4 else w4')"
    and "ParentAuthRepository.Store (parentAuthRepository au) tx stored w5 = ((stored', None), w6)"
  shows "SignUpParent dm au pa pn ([], w) =
           ((None, stored'),
            ([BeginTx_call, GetByPhoneNumber_call tx pn, GenerateHashWithMinSalt_call (PW pa),
              GetAvailableUUID_call tx, StoreParentAuth_call tx stored, Commit_call tx],
             snd (Commit (txHandler au) tx w6)))"
  using assms
  by (cases uerr)
     (simp_all add: SignUpParent_def certified_def Let_def invoke_known draw_known
        commitReturn_eq leaving_def)

lemma signup_path_store_fails:
  assumes "BeginTx (txHandler au) w = ((tx, None), w1)"
    and "GetByPhoneNumber (parentPhoneCertifyRepository au) tx pn w1 = ((ppc, None), w2)"
    and "certified ppc"
    and "GenerateHashWithMinSalt (hashHandler au) (PW pa) w2 = ((h, None), w3)"
    and "GetAvailableUUID (parentAuthRepository au) tx w3 = ((u, uerr), w4)"
    and "GenerateRandomUUID dm (pa\<lparr>PW := h, UUID := u\<rparr>) w4 = (u', w4')"
    and "stored = (if uerr = None then pa\<lparr>PW := h, UUID := u\<rparr> else pa\<lparr>PW := h, UUID := u'\<rparr>)"
    and "w5 = (if uerr = None then w4 else w4')"
    and "ParentAuthRepository.Store (parentAuthRepository au) tx stored w5 = ((stored', Some e), w6)"
  shows "SignUpParent dm au pa pn ([], w) =
           ((Some (storeParentAuthErr e), stored'),
            ([BeginTx_call, GetByPhoneNumber_call tx pn, GenerateHashWithMinSalt_call (PW pa),
              GetAvailableUUID_call tx, StoreParentAuth_call tx stored, Rollback_call tx],
             snd (Rollback (txHandler au) tx w6)))"
  using assms
  by (cases uerr)
     (simp_all add: SignUpParent_def certified_def Let_def invoke_known draw_known
        rollbackReturn_eq leaving_def)

lemma signup_success:
  assumes "SignUpParent dm au pa pn ([], w) = ((None, pa'), s')"
  shows "\<exists>tx w1 ppc w2.
           BeginTx (txHandler au) w = ((tx, None), w1)
         \<and> GetByPhoneNumber (parentPhoneCertifyRepository au) tx pn w1 = ((ppc, None), w2)
         \<and> certified ppc"
  using assms
  by (auto simp add: SignUpParent_def Let_def certified_def invoke_eq draw_eq rollbackReturn_eq
        commitReturn_eq leaving_def split: prod.splits option.splits if_splits)

subsection \<open>The paths of LoginParentAuth\<close>

lemma login_path_matched:
  assumes "BeginTx (txHandler au) w = ((tx, None), w1)"
    and "GetByID (parentAuthRepository au) tx i w1 = ((pa, None), w2)"
    and "CompareHashAndPW (hashHandler au) (PW pa) pw w2 = (None, w3)"
    and "GenerateUUIDJWT (jwtHandler au) (UUID pa) ''access_token'' (Hour * 24) w3 = ((token, jerr), w4)"
  shows "LoginParentAuth au i pw ([], w) =
           ((UUID pa, token, None),
            ([BeginTx_call, GetByID_call tx i, CompareHashAndPW_call (PW pa) pw,
              GenerateUUIDJWT_call (UUID pa) ''access_token'' (Hour * 24), Commit_call tx],
             snd (Commit (txHandler au) tx w4)))"
  using assms
  by (simp add: LoginParentAuth_def invoke_known invoke_eq split: prod.splits)

lemma login_path_mismatch:
  assumes "BeginTx (txHandler au) w = ((tx, None), w1)"
    and "GetByID (parentAuthRepository au) tx i w1 = ((pa, None), w2)"
    and "CompareHashAndPW (hashHandler au) (PW pa) pw w2 = (Some e, w3)"
    and "Mismatch e"
  shows "LoginParentAuth au i pw ([], w) =
           (([], [], Some (conflictErr (New ''incorrect password'') incorrectParentPW)),
            ([BeginTx_call, GetByID_call tx i, CompareHashAndPW_call (PW pa) pw, Rollback_call tx],
             snd (Rollback (txHandler au) tx w3)))"
  using assms
  by (simp add: LoginParentAuth_def invoke_known rollbackReturn_eq failing_def)

subsection \<open>Every path resolves the transaction once\<close>









subsection \<open>A commit is followed by success\<close>

lemma commitIgnored_pair:
  "commitIgnored (r, s) \<longleftrightarrow> (filter isCommit (fst s) \<noteq> [] \<longrightarrow> r = None)"
  by (simp add: commitIgnored_def calls_def)

lemma rollbackReturn_ign:
  "filter isCommit (fst s) = [] \<Longrightarrow> commitIgnored (rollbackReturn au tx e s)"
  by (simp add: commitIgnored_def rollbackReturn_calls)

lemma commitReturn_ign: "commitIgnored (commitReturn au tx s)"
  by (simp add: commitIgnored_def commitReturn_fst)

lemma sendAndCommit_ign:
  "filter isCommit (fst s) = [] \<Longrightarrow> commitIgnored (sendAndCommit au tx ppc s)"
  by (simp add: sendAndCommit_def Let_def invoke_eq rollbackReturn_ign commitReturn_ign
           split: prod.splits option.splits)

lemma errOfSignUp_leaving: "errOfSignUp (leaving pa x) = x"
  by (simp add: errOfSignUp_def leaving_def split: prod.splits)

lemma errOfLogin_failing: "errOfLogin (failing x) = x"
  by (simp add: errOfLogin_def failing_def split: prod.splits)

lemma errOfSignUp_pair: "errOfSignUp ((e, pa), s) = (e, s)"
  by (simp add: errOfSignUp_def)

lemma errOfLogin_pair: "errOfLogin ((u, t, e), s) = (e, s)"
  by (simp add: errOfLogin_def)

lemmas ign_simps =
  rollbackReturn_ign commitReturn_ign sendAndCommit_ign commitIgnored_pair
  errOfSignUp_leaving errOfLogin_failing errOfSignUp_pair errOfLogin_pair

lemma send_commitIgnored: "commitIgnored (SendCertifyCodeToPhone dm au pn ([], w))"
  by (simp add: SendCertifyCodeToPhone_def Let_def invoke_eq draw_eq ign_simps
           split: prod.splits option.splits)

lemma certify_commitIgnored: "commitIgnored (CertifyPhoneWithCode au pn code ([], w))"
  by (simp add: CertifyPhoneWithCode_def Let_def invoke_eq ign_simps
           split: prod.splits option.splits)

lemma signup_commitIgnored: "commitIgnored (errOfSignUp (SignUpParent dm au pa pn ([], w)))"
  by (simp add: SignUpParent_def Let_def invoke_eq draw_eq ign_simps
           split: prod.splits option.splits)

lemma login_commitIgnored: "commitIgnored (errOfLogin (LoginParentAuth au i pw ([], w)))"
  by (simp add: LoginParentAuth_def invoke_eq ign_simps
           split: prod.splits option.splits)

subsection \<open>The certify code\<close>

lemma GenerateCertifyCode_valid: "validCertifyCode (GenerateCertifyCode r)"
proof -
  have "r mod 900000 < 900000" by simp
  then show ?thesis
    unfolding validCertifyCode_def GenerateCertifyCode_def by linarith
qed


section \<open>The claims\<close>

text \<open>
  The hypotheses of the theorems name what the collaborators answer on the path in
  question: \<open>BeginTx (txHandler au) w = ((tx, None), w1)\<close> says that beginning the
  transaction in the world \<open>w\<close> succeeds with the scope \<open>tx\<close> and leaves the world \<open>w1\<close>.
  An operation starts with an empty log, \<open>([], w)\<close>.
\<close>

text \<open>
  C1. In \<open>LoginParentAuth\<close>, when the account lookup succeeds and the password
  comparison succeeds, the error of \<open>GenerateUUIDJWT\<close> is discarded: whatever error
  \<open>jerr\<close> the token handler returns, the operation returns the account's UUID, the
  token the handler returned, and a \<open>nil\<close> error.
\<close>

theorem login_token_error_discarded:
  assumes "BeginTx (txHandler au) w = ((tx, None), w1)"
    and "GetByID (parentAuthRepository au) tx i w1 = ((pa, None), w2)"
    and "CompareHashAndPW (hashHandler au) (PW pa) pw w2 = (None, w3)"
    and "GenerateUUIDJWT (jwtHandler au) (UUID pa) ''access_token'' (Hour * 24) w3 =
           ((token, jerr), w4)"
  shows "fst (LoginParentAuth au i pw ([], w)) = (UUID pa, token, None)"
  by (simp add: login_path_matched [OF assms])

theorem login_token_error_discarded_witness:
  "GenerateUUIDJWT (jwtHandler sampleJwtFails) (UUID mom) ''access_token'' (Hour * 24) world0 =
     (([], Some (plainError ''signing failed'')), world0)
   \<and> fst (LoginParentAuth sampleJwtFails ''mom'' ''secret'' ([], world0)) = (UUID mom, [], None)"
proof -
  have b: "BeginTx (txHandler sampleJwtFails) world0 = ((1, None), world0)"
    and g: "GetByID (parentAuthRepository sampleJwtFails) 1 ''mom'' world0 = ((mom, None), world0)"
    and c: "CompareHashAndPW (hashHandler sampleJwtFails) (PW mom) ''secret'' world0 = (None, world0)"
    and j: "GenerateUUIDJWT (jwtHandler sampleJwtFails) (UUID mom) ''access_token'' (Hour * 24) world0 =
              (([], Some (plainError ''signing failed'')), world0)"
    by (simp_all add: sample_defs)
  show ?thesis
    using j login_token_error_discarded [OF b g c j] by simp
qed

text \<open>
  C2, as stated, fails: the account exists and the password matches, the token handler
  fails, and the login returns a \<open>nil\<close> error with an empty token.
\<close>

theorem login_empty_token_counterexample:
  "GetByID (parentAuthRepository sampleJwtFails) 1 ''mom'' world0 = ((mom, None), world0)
   \<and> CompareHashAndPW (hashHandler sampleJwtFails) (PW mom) ''secret'' world0 = (None, world0)
   \<and> snd (snd (fst (LoginParentAuth sampleJwtFails ''mom'' ''secret'' ([], world0)))) = None
   \<and> \<not> (fst (fst (LoginParentAuth sampleJwtFails ''mom'' ''secret'' ([], world0))) \<noteq> []
        \<and> fst (snd (fst (LoginParentAuth sampleJwtFails ''mom'' ''secret'' ([], world0)))) \<noteq> [])"
proof -
  have b: "BeginTx (txHandler sampleJwtFails) world0 = ((1, None), world0)"
    and g: "GetByID (parentAuthRepository sampleJwtFails) 1 ''mom'' world0 = ((mom, None), world0)"
    and c: "CompareHashAndPW (hashHandler sampleJwtFails) (PW mom) ''secret'' world0 = (None, world0)"
    and j: "GenerateUUIDJWT (jwtHandler sampleJwtFails) (UUID mom) ''access_token'' (Hour * 24) world0 =
              (([], Some (plainError ''signing failed'')), world0)"
    by (simp_all add: sample_defs)
  have "fst (LoginParentAuth sampleJwtFails ''mom'' ''secret'' ([], world0)) = (UUID mom, [], None)"
    by (simp add: login_path_matched [OF b g c j])
  with g c show ?thesis
    by simp
qed

text \<open>
  C2, amended. Where an account with the given login ID exists and the password matches
  its stored hash, \<open>LoginParentAuth\<close> returns the stored UUID and the token that
  \<open>GenerateUUIDJWT\<close> returned, with a \<open>nil\<close> error; both are non-empty when the stored
  UUID is non-empty and the token handler returned a non-empty token. Where the account
  exists and the comparison reports a mismatch, it returns the conflict
  \<open>incorrectParentPW\<close> with an empty UUID and no token.
\<close>

theorem login_correct_or_wrong_password:
  assumes "BeginTx (txHandler au) w = ((tx, None), w1)"
    and "GetByID (parentAuthRepository au) tx i w1 = ((pa, None), w2)"
    and "CompareHashAndPW (hashHandler au) (PW pa) pw w2 = (cerr, w3)"
    and "GenerateUUIDJWT (jwtHandler au) (UUID pa) ''access_token'' (Hour * 24) w3 =
           ((token, jerr), w4)"
  shows "(cerr = None \<longrightarrow>
            fst (LoginParentAuth au i pw ([], w)) = (UUID pa, token, None)
          \<and> (UUID pa \<noteq> [] \<and> token \<noteq> [] \<longrightarrow>
                fst (fst (LoginParentAuth au i pw ([], w))) \<noteq> []
              \<and> fst (snd (fst (LoginParentAuth au i pw ([], w)))) \<noteq> []))
       \<and> (\<forall>e. cerr = Some e \<and> Mismatch e \<longrightarrow>
            fst (LoginParentAuth au i pw ([], w)) =
              ([], [], Some (conflictErr (New ''incorrect password'') incorrectParentPW)))"
proof (intro conjI impI allI)
  assume a: "cerr = None"
  then have "LoginParentAuth au i pw ([], w) =
           ((UUID pa, token, None),
            ([BeginTx_call, GetByID_call tx i, CompareHashAndPW_call (PW pa) pw,
              GenerateUUIDJWT_call (UUID pa) ''access_token'' (Hour * 24), Commit_call tx],
             snd (Commit (txHandler au) tx w4)))"
    using assms by (intro login_path_matched) auto
  then show r: "fst (LoginParentAuth au i pw ([], w)) = (UUID pa, token, None)"
    by simp
  assume "UUID pa \<noteq> [] \<and> token \<noteq> []"
  with r show "fst (fst (LoginParentAuth au i pw ([], w))) \<noteq> []"
    and "fst (snd (fst (LoginParentAuth au i pw ([], w)))) \<noteq> []"
    by simp_all
next
  fix e assume "cerr = Some e \<and> Mismatch e"
  then show "fst (LoginParentAuth au i pw ([], w)) =
              ([], [], Some (conflictErr (New ''incorrect password'') incorrectParentPW))"
    using assms login_path_mismatch [of au w tx w1 i pa w2 pw e w3] by simp
qed

theorem login_correct_or_wrong_password_witness:
  "UUID mom \<noteq> []
   \<and> fst (LoginParentAuth sample ''mom'' ''secret'' ([], world0)) = (UUID mom, ''jwt:p1'', None)
   \<and> fst (fst (LoginParentAuth sample ''mom'' ''secret'' ([], world0))) \<noteq> []
   \<and> fst (snd (fst (LoginParentAuth sample ''mom'' ''secret'' ([], world0)))) \<noteq> []
   \<and> Mismatch mismatch
   \<and> fst (LoginParentAuth sample ''mom'' ''guess'' ([], world0)) =
       ([], [], Some (conflictErr (New ''incorrect password'') incorrectParentPW))"
proof -
  have b: "BeginTx (txHandler sample) world0 = ((1, None), world0)"
    and g: "GetByID (parentAuthRepository sample) 1 ''mom'' world0 = ((mom, None), world0)"
    and c: "CompareHashAndPW (hashHandler sample) (PW mom) ''secret'' world0 = (None, world0)"
    and c': "CompareHashAndPW (hashHandler sample) (PW mom) ''guess'' world0 =
               (Some mismatch, world0)"
    and j: "GenerateUUIDJWT (jwtHandler sample) (UUID mom) ''access_token'' (Hour * 24) world0 =
              ((''jwt:p1'', None), world0)"
    by (simp_all add: sample_defs)
  have u: "UUID mom \<noteq> []" and m: "Mismatch mismatch"
    by (simp_all add: mom_def mismatch_def plainError_def)
  show ?thesis
    using u m login_correct_or_wrong_password [OF b g c j]
      login_correct_or_wrong_password [OF b g c' j]
    by simp
qed

text \<open>
  C3, as stated, fails: the number has no certification record and the phone store
  fails; the record handed to \<open>Store\<close> has an unset certified flag (\<open>Valid\<close> is false), no
  record is created and no SMS is sent.
\<close>

theorem send_new_phone_counterexample:
  "GetByPhoneNumber (parentPhoneCertifyRepository sampleStoreFails) 1 ''01000000009'' world0 =
     ((\<lparr>ParentUUID = zeroNullString, PhoneNumber = [], CertifyCode = 0,
        Certified = zeroNullBool\<rparr>, Some noRows), world0)
   \<and> rowNotExistErr noRows
   \<and> filter isPhoneWrite
       (calls (SendCertifyCodeToPhone sampleDomain sampleStoreFails ''01000000009'' ([], world0))) =
       [Store_call 1 \<lparr>ParentUUID = zeroNullString, PhoneNumber = ''01000000009'',
                      CertifyCode = 100007,
                      Certified = \<lparr>Bool = False, NullBool.Valid = False\<rparr>\<rparr>]
   \<and> fst (SendCertifyCodeToPhone sampleDomain sampleStoreFails ''01000000009'' ([], world0)) =
       Some (internalServerErr
               (Wrap (plainError ''store failed'') ''phone Store return unexpected error''))
   \<and> length (filter isSMS
       (calls (SendCertifyCodeToPhone sampleDomain sampleStoreFails ''01000000009'' ([], world0))))
       \<noteq> 1"
proof -
  let ?none = "\<lparr>ParentUUID = zeroNullString, PhoneNumber = [], CertifyCode = 0,
                 Certified = zeroNullBool\<rparr>"
  let ?new = "\<lparr>ParentUUID = zeroNullString, PhoneNumber = ''01000000009'',
                CertifyCode = GenerateCertifyCode 7, Certified = zeroNullBool\<rparr>"
  have b: "BeginTx (txHandler sampleStoreFails) world0 = ((1, None), world0)"
    and g: "GetByPhoneNumber (parentPhoneCertifyRepository sampleStoreFails) 1 ''01000000009''
              world0 = ((?none, Some noRows), world0)"
    and n: "rowNotExistErr noRows"
    and r: "randomSource sampleDomain world0 = (7, world0\<lparr>entropy := 8\<rparr>)"
    and s: "ParentPhoneCertifyRepository.Store (parentPhoneCertifyRepository sampleStoreFails) 1
              ?new (world0\<lparr>entropy := 8\<rparr>) =
              ((?new, Some (plainError ''store failed'')), world0\<lparr>entropy := 8\<rparr>)"
    by (simp_all add: sample_defs)
  have v: "GenerateCertifyCode 7 = 100007"
    by (simp add: GenerateCertifyCode_def)
  from send_path_new_store_fails [OF b g n r refl s] g n v
  show ?thesis
    by (simp add: calls_pair zeroNullBool_def)
qed

text \<open>
  C3, amended. For a phone number with no certification record (the lookup reports
  \<open>rowNotExistErr\<close>), \<open>SendCertifyCodeToPhone\<close> makes one write, the \<open>Store\<close> of a new
  record \<open>new\<close> for that number, whose certified flag is unset (the zero value of
  \<open>sql.NullBool\<close>: \<open>Bool\<close> false and \<open>Valid\<close> false, so the record does not count as
  certified) and whose certify code is in the six-digit range. If \<open>Store\<close> fails, no SMS
  is sent, the transaction is rolled back and \<open>internalServerErr\<close> is returned. If
  \<open>Store\<close> succeeds, exactly one SMS is sent, to the number and with the code of the
  record as \<open>Store\<close> left it; when the send succeeds the operation commits and returns
  a \<open>nil\<close> error, and when it fails the operation rolls back and returns
  \<open>internalServerErr\<close>.
\<close>

theorem send_new_phone:
  assumes "BeginTx (txHandler au) w = ((tx, None), w1)"
    and "GetByPhoneNumber (parentPhoneCertifyRepository au) tx pn w1 = ((ppc, Some e), w2)"
    and "rowNotExistErr e"
    and "randomSource dm w2 = (r, w3)"
    and "new = \<lparr>ParentUUID = zeroNullString, PhoneNumber = pn,
                 CertifyCode = GenerateCertifyCode r, Certified = zeroNullBool\<rparr>"
    and "ParentPhoneCertifyRepository.Store (parentPhoneCertifyRepository au) tx new w3 =
           ((new', serr), w4)"
    and "SendSMSToOne (messageAgency au) (PhoneNumber new') (smsContent (CertifyCode new')) w4 =
           (merr, w5)"
  shows "Certified new = \<lparr>Bool = False, NullBool.Valid = False\<rparr>
       \<and> \<not> certified new
       \<and> validCertifyCode (CertifyCode new)
       \<and> filter isPhoneWrite (calls (SendCertifyCodeToPhone dm au pn ([], w))) = [Store_call tx new]
       \<and> (\<forall>e'. serr = Some e' \<longrightarrow>
             SendCertifyCodeToPhone dm au pn ([], w) =
               (Some (internalServerErr (Wrap e' ''phone Store return unexpected error'')),
                ([BeginTx_call, GetByPhoneNumber_call tx pn, Store_call tx new, Rollback_call tx],
                 snd (Rollback (txHandler au) tx w4)))
           \<and> filter isSMS (calls (SendCertifyCodeToPhone dm au pn ([], w))) = [])
       \<and> (serr = None \<longrightarrow>
             filter isSMS (calls (SendCertifyCodeToPhone dm au pn ([], w))) =
               [SendSMSToOne_call (PhoneNumber new') (smsContent (CertifyCode new'))]
           \<and> (\<forall>e'. merr = Some e' \<longrightarrow>
                 SendCertifyCodeToPhone dm au pn ([], w) =
                   (Some (internalServerErr (Wrap e' ''SendSMSToOne return unexpected error'')),
                    ([BeginTx_call, GetByPhoneNumber_call tx pn, Store_call tx new,
                      SendSMSToOne_call (PhoneNumber new') (smsContent (CertifyCode new')),
                      Rollback_call tx],
                     snd (Rollback (txHandler au) tx w5))))
           \<and> (merr = None \<longrightarrow>
                 SendCertifyCodeToPhone dm au pn ([], w) =
                   (None,
                    ([BeginTx_call, GetByPhoneNumber_call tx pn, Store_call tx new,
                      SendSMSToOne_call (PhoneNumber new') (smsContent (CertifyCode new')),
                      Commit_call tx],
                     snd (Commit (txHandler au) tx w5)))))"
proof -
  have flag: "Certified new = \<lparr>Bool = False, NullBool.Valid = False\<rparr>" "\<not> certified new"
    using assms(5) by (simp_all add: certified_def zeroNullBool_def)
  have code: "validCertifyCode (CertifyCode new)"
    using assms(5) by (simp add: GenerateCertifyCode_valid)
  show ?thesis
  proof (cases serr)
    case (Some e')
    from send_path_new_store_fails [OF assms(1-5) assms(6) [unfolded Some]]
    show ?thesis
      using flag code Some by (simp add: calls_pair)
  next
    case None
    note st = assms(6) [unfolded None]
    show ?thesis
    proof (cases merr)
      case (Some e')
      from send_path_new_sms_fails [OF assms(1-5) st assms(7) [unfolded Some]]
      show ?thesis
        using flag code None Some by (simp add: calls_pair)
    next
      case None': None
      from send_path_new_committed [OF assms(1-5) st assms(7) [unfolded None']]
      show ?thesis
        using flag code None None' by (simp add: calls_pair)
    qed
  qed
qed

theorem send_new_phone_witness:
  "rowNotExistErr noRows
   \<and> GenerateCertifyCode 7 = 100007
   \<and> validCertifyCode (GenerateCertifyCode 7)
   \<and> SendCertifyCodeToPhone sampleDomain sample ''01000000009'' ([], world0) =
       (None,
        ([BeginTx_call, GetByPhoneNumber_call 1 ''01000000009'',
          Store_call 1 \<lparr>ParentUUID = zeroNullString, PhoneNumber = ''01000000009'',
                         CertifyCode = GenerateCertifyCode 7, Certified = zeroNullBool\<rparr>,
          SendSMSToOne_call ''01000000009'' (smsContent (GenerateCertifyCode 7)),
          Commit_call 1],
         world0\<lparr>entropy := 8,
                phones := phones world0 @
                  [\<lparr>ParentUUID = zeroNullString, PhoneNumber = ''01000000009'',
                    CertifyCode = GenerateCertifyCode 7, Certified = zeroNullBool\<rparr>],
                outbox := [(''01000000009'', smsContent (GenerateCertifyCode 7))]\<rparr>))
   \<and> filter isSMS
       (calls (SendCertifyCodeToPhone sampleDomain sampleStoreFails ''01000000009'' ([], world0))) = []
   \<and> fst (SendCertifyCodeToPhone sampleDomain sampleStoreFails ''01000000009'' ([], world0)) =
       Some (internalServerErr
               (Wrap (plainError ''store failed'') ''phone Store return unexpected error''))
   \<and> fst (SendCertifyCodeToPhone sampleDomain sampleSmsFails ''01000000009'' ([], world0)) =
       Some (internalServerErr
               (Wrap (plainError ''sms failed'') ''SendSMSToOne return unexpected error''))
   \<and> filter isResolution
       (calls (SendCertifyCodeToPhone sampleDomain sampleSmsFails ''01000000009'' ([], world0))) =
       [Rollback_call 1]"
proof -
  let ?none = "\<lparr>ParentUUID = zeroNullString, PhoneNumber = [], CertifyCode = 0,
                 Certified = zeroNullBool\<rparr>"
  let ?new = "\<lparr>ParentUUID = zeroNullString, PhoneNumber = ''01000000009'',
                CertifyCode = GenerateCertifyCode 7, Certified = zeroNullBool\<rparr>"
  let ?w3 = "world0\<lparr>entropy := 8\<rparr>"
  let ?w4 = "world0\<lparr>entropy := 8, phones := phones world0 @ [?new]\<rparr>"
  let ?w5 = "world0\<lparr>entropy := 8, phones := phones world0 @ [?new],
               outbox := [(''01000000009'', smsContent (GenerateCertifyCode 7))]\<rparr>"
  have n: "rowNotExistErr noRows"
    and r: "randomSource sampleDomain world0 = (7, ?w3)"
    by (simp_all add: sample_defs)
  have v: "GenerateCertifyCode 7 = 100007"
    by (simp add: GenerateCertifyCode_def)
  have b: "BeginTx (txHandler sample) world0 = ((1, None), world0)"
    and g: "GetByPhoneNumber (parentPhoneCertifyRepository sample) 1 ''01000000009'' world0 =
              ((?none, Some noRows), world0)"
    and s: "ParentPhoneCertifyRepository.Store (parentPhoneCertifyRepository sample) 1 ?new ?w3 =
              ((?new, None), ?w4)"
    and m: "SendSMSToOne (messageAgency sample) (PhoneNumber ?new) (smsContent (CertifyCode ?new))
              ?w4 = (None, ?w5)"
    and c: "snd (Commit (txHandler sample) 1 ?w5) = ?w5"
    by (simp_all add: sample_defs)
  have b1: "BeginTx (txHandler sampleStoreFails) world0 = ((1, None), world0)"
    and g1: "GetByPhoneNumber (parentPhoneCertifyRepository sampleStoreFails) 1 ''01000000009''
               world0 = ((?none, Some noRows), world0)"
    and s1: "ParentPhoneCertifyRepository.Store (parentPhoneCertifyRepository sampleStoreFails) 1
               ?new ?w3 = ((?new, Some (plainError ''store failed'')), ?w3)"
    and m1: "SendSMSToOne (messageAgency sampleStoreFails) (PhoneNumber ?new)
               (smsContent (CertifyCode ?new)) ?w3 =
               (None, ?w3\<lparr>outbox := [(''01000000009'', smsContent (GenerateCertifyCode 7))]\<rparr>)"
    by (simp_all add: sample_defs)
  have b2: "BeginTx (txHandler sampleSmsFails) world0 = ((1, None), world0)"
    and g2: "GetByPhoneNumber (parentPhoneCertifyRepository sampleSmsFails) 1 ''01000000009''
               world0 = ((?none, Some noRows), world0)"
    and s2: "ParentPhoneCertifyRepository.Store (parentPhoneCertifyRepository sampleSmsFails) 1
               ?new ?w3 = ((?new, None), ?w4)"
    and m2: "SendSMSToOne (messageAgency sampleSmsFails) (PhoneNumber ?new)
               (smsContent (CertifyCode ?new)) ?w4 = (Some (plainError ''sms failed''), ?w4)"
    by (simp_all add: sample_defs)
  show ?thesis
    using n v c
      send_new_phone [OF b g n r refl s m]
      send_new_phone [OF b1 g1 n r refl s1 m1]
      send_new_phone [OF b2 g2 n r refl s2 m2]
    by (simp add: calls_pair)
qed



text \<open>
  C5. When the certification record of the phone number is absent (the lookup reports
  \<open>rowNotExistErr\<close>), and when it exists but is not certified, \<open>SignUpParent\<close> fails
  with the same conflict, \<open>uncertifiedPhone\<close>, and makes no call to the account store.
  It returns a \<open>nil\<close> error only when the lookup succeeded with a certified record.
\<close>

theorem signup_requires_certified_phone:
  assumes "BeginTx (txHandler au) w = ((tx, None), w1)"
    and "GetByPhoneNumber (parentPhoneCertifyRepository au) tx pn w1 = ((ppc, err), w2)"
  shows "((err = None \<and> \<not> certified ppc) \<or> (\<exists>e. err = Some e \<and> rowNotExistErr e) \<longrightarrow>
            fst (fst (SignUpParent dm au pa pn ([], w))) =
              Some (conflictErr (New ''this phone number is not certified'') uncertifiedPhone)
          \<and> filter isAccountStore (calls (SignUpParent dm au pa pn ([], w))) = [])
       \<and> (fst (fst (SignUpParent dm au pa pn ([], w))) = None \<longrightarrow> err = None \<and> certified ppc)"
proof (intro conjI impI)
  assume "(err = None \<and> \<not> certified ppc) \<or> (\<exists>e. err = Some e \<and> rowNotExistErr e)"
  from signup_path_uncertified [OF assms this]
  show "fst (fst (SignUpParent dm au pa pn ([], w))) =
          Some (conflictErr (New ''this phone number is not certified'') uncertifiedPhone)"
    and "filter isAccountStore (calls (SignUpParent dm au pa pn ([], w))) = []"
    by (simp_all add: calls_pair)
next
  assume ok: "fst (fst (SignUpParent dm au pa pn ([], w))) = None"
  obtain pa' s' where "SignUpParent dm au pa pn ([], w) = ((None, pa'), s')"
    using ok by (cases "SignUpParent dm au pa pn ([], w)") auto
  from signup_success [OF this] assms
  show "err = None" and "certified ppc"
    by auto
qed

theorem signup_requires_certified_phone_witness:
  "\<not> certified pendingPhone
   \<and> fst (fst (SignUpParent sampleDomain sample
        \<lparr>UUID = [], ID = ''dad'', PW = ''pw'', Name = ''Dad''\<rparr> ''01000000001'' ([], world0))) =
       Some (conflictErr (New ''this phone number is not certified'') uncertifiedPhone)
   \<and> filter isAccountStore (calls (SignUpParent sampleDomain sample
        \<lparr>UUID = [], ID = ''dad'', PW = ''pw'', Name = ''Dad''\<rparr> ''01000000001'' ([], world0))) = []
   \<and> rowNotExistErr noRows
   \<and> fst (fst (SignUpParent sampleDomain sample
        \<lparr>UUID = [], ID = ''dad'', PW = ''pw'', Name = ''Dad''\<rparr> ''01000000009'' ([], world0))) =
       Some (conflictErr (New ''this phone number is not certified'') uncertifiedPhone)
   \<and> filter isAccountStore (calls (SignUpParent sampleDomain sample
        \<lparr>UUID = [], ID = ''dad'', PW = ''pw'', Name = ''Dad''\<rparr> ''01000000009'' ([], world0))) = []
   \<and> fst (fst (SignUpParent sampleDomain sample
        \<lparr>UUID = [], ID = ''dad'', PW = ''pw'', Name = ''Dad''\<rparr> ''01000000002'' ([], world0))) = None
   \<and> certified certifiedPhone"
proof -
  let ?dad = "\<lparr>UUID = [], ID = ''dad'', PW = ''pw'', Name = ''Dad''\<rparr>"
  let ?none = "\<lparr>ParentUUID = zeroNullString, PhoneNumber = [], CertifyCode = 0,
                 Certified = zeroNullBool\<rparr>"
  have b: "BeginTx (txHandler sample) world0 = ((1, None), world0)"
    and g1: "GetByPhoneNumber (parentPhoneCertifyRepository sample) 1 ''01000000001'' world0 =
               ((pendingPhone, None), world0)"
    and g9: "GetByPhoneNumber (parentPhoneCertifyRepository sample) 1 ''01000000009'' world0 =
               ((?none, Some noRows), world0)"
    and g2: "GetByPhoneNumber (parentPhoneCertifyRepository sample) 1 ''01000000002'' world0 =
               ((certifiedPhone, None), world0)"
    and n: "rowNotExistErr noRows"
    by (simp_all add: sample_defs)
  have p: "\<not> certified pendingPhone"
    by (simp add: certified_def pendingPhone_def)
  have ok: "fst (fst (SignUpParent sampleDomain sample ?dad ''01000000002'' ([], world0))) = None"
    by (simp add: run_defs sample_defs)
  show ?thesis
    using p n ok
      signup_requires_certified_phone [OF b g1, of sampleDomain ?dad]
      signup_requires_certified_phone [OF b g9, of sampleDomain ?dad]
      signup_requires_certified_phone [OF b g2, of sampleDomain ?dad]
    by simp
qed

text \<open>
  C6, as stated, fails: the record exists and is not certified, the supplied code equals
  the stored code, the update fails, and the operation rolls back and returns
  \<open>internalServerErr\<close> instead of success.
\<close>

theorem certify_update_fails_counterexample:
  "GetByPhoneNumber (parentPhoneCertifyRepository sampleUpdateFails) 1 ''01000000001'' world0 =
     ((pendingPhone, None), world0)
   \<and> \<not> certified pendingPhone
   \<and> CertifyCode pendingPhone = 123456
   \<and> CertifyPhoneWithCode sampleUpdateFails ''01000000001'' 123456 ([], world0) =
       (Some (internalServerErr
                (Wrap (plainError ''update failed'') ''phone Update return unexpected error'')),
        ([BeginTx_call, GetByPhoneNumber_call 1 ''01000000001'',
          Update_call 1 (pendingPhone\<lparr>Certified := \<lparr>Bool = True, NullBool.Valid = True\<rparr>\<rparr>),
          Rollback_call 1],
         world0))
   \<and> fst (CertifyPhoneWithCode sampleUpdateFails ''01000000001'' 123456 ([], world0)) \<noteq> None"
proof -
  let ?upd = "pendingPhone\<lparr>Certified := \<lparr>Bool = True, NullBool.Valid = True\<rparr>\<rparr>"
  have b: "BeginTx (txHandler sampleUpdateFails) world0 = ((1, None), world0)"
    and g: "GetByPhoneNumber (parentPhoneCertifyRepository sampleUpdateFails) 1 ''01000000001''
              world0 = ((pendingPhone, None), world0)"
    and u: "Update (parentPhoneCertifyRepository sampleUpdateFails) 1 ?upd world0 =
              ((?upd, Some (plainError ''update failed'')), world0)"
    and k: "snd (Rollback (txHandler sampleUpdateFails) 1 world0) = world0"
    by (simp_all add: sample_defs)
  have p: "\<not> certified pendingPhone" and c: "123456 = CertifyCode pendingPhone"
    by (simp_all add: certified_def pendingPhone_def)
  from certify_path_update_fails [OF b g p c refl u] g p c k
  show ?thesis
    by simp
qed

text \<open>
  C6, amended. For a certify-phone call on an existing record that is not certified: if
  the supplied code equals the stored code, the one write is an \<open>Update\<close> of the record
  with its certified flag set to true; when that update succeeds the operation commits
  and returns a \<open>nil\<close> error, and when it fails the operation rolls back and returns
  \<open>internalServerErr\<close>. If the code differs, no write is made (the flag stays as it
  was), the transaction is rolled back and the conflict \<open>incorrectCertifyCode\<close> is
  returned.
\<close>

theorem certify_uncertified_record:
  assumes "BeginTx (txHandler au) w = ((tx, None), w1)"
    and "GetByPhoneNumber (parentPhoneCertifyRepository au) tx pn w1 = ((ppc, None), w2)"
    and "\<not> certified ppc"
    and "upd = ppc\<lparr>Certified := \<lparr>Bool = True, NullBool.Valid = True\<rparr>\<rparr>"
    and "Update (parentPhoneCertifyRepository au) tx upd w2 = ((upd', uerr), w3)"
  shows "(code = CertifyCode ppc \<longrightarrow>
            certified upd
          \<and> filter isPhoneWrite (calls (CertifyPhoneWithCode au pn code ([], w))) =
              [Update_call tx upd]
          \<and> (uerr = None \<longrightarrow>
                CertifyPhoneWithCode au pn code ([], w) =
                  (None,
                   ([BeginTx_call, GetByPhoneNumber_call tx pn, Update_call tx upd,
                     Commit_call tx],
                    snd (Commit (txHandler au) tx w3))))
          \<and> (\<forall>e. uerr = Some e \<longrightarrow>
                CertifyPhoneWithCode au pn code ([], w) =
                  (Some (internalServerErr (Wrap e ''phone Update return unexpected error'')),
                   ([BeginTx_call, GetByPhoneNumber_call tx pn, Update_call tx upd,
                     Rollback_call tx],
                    snd (Rollback (txHandler au) tx w3)))))
       \<and> (code \<noteq> CertifyCode ppc \<longrightarrow>
            CertifyPhoneWithCode au pn code ([], w) =
              (Some (conflictErr (New ''incorrect certify code to that phone number'')
                       incorrectCertifyCode),
               ([BeginTx_call, GetByPhoneNumber_call tx pn, Rollback_call tx],
                snd (Rollback (txHandler au) tx w2)))
          \<and> fst (CertifyPhoneWithCode au pn code ([], w)) =
              Some (conflictErr (New ''incorrect certify code to that phone number'')
                      incorrectCertifyCode)
          \<and> filter isPhoneWrite (calls (CertifyPhoneWithCode au pn code ([], w))) = []
          \<and> filter isResolution (calls (CertifyPhoneWithCode au pn code ([], w))) =
              [Rollback_call tx])"
proof (cases "code = CertifyCode ppc")
  case True
  have cert: "certified upd"
    using assms(4) by (simp add: certified_def)
  show ?thesis
  proof (cases uerr)
    case None
    from certify_path_updated [OF assms(1-3) True assms(4) assms(5) [unfolded None]]
    show ?thesis
      using True cert None by (simp add: calls_pair)
  next
    case (Some e)
    from certify_path_update_fails [OF assms(1-3) True assms(4) assms(5) [unfolded Some]]
    show ?thesis
      using True cert Some by (simp add: calls_pair)
  qed
next
  case False
  from certify_path_wrong_code [OF assms(1,2,3) False]
  show ?thesis
    using False by (simp add: calls_pair)
qed

theorem certify_uncertified_record_witness:
  "\<not> certified pendingPhone
   \<and> CertifyCode pendingPhone = 123456
   \<and> CertifyPhoneWithCode sample ''01000000001'' 123456 ([], world0) =
       (None,
        ([BeginTx_call, GetByPhoneNumber_call 1 ''01000000001'',
          Update_call 1 (pendingPhone\<lparr>Certified := \<lparr>Bool = True, NullBool.Valid = True\<rparr>\<rparr>),
          Commit_call 1],
         world0\<lparr>phones :=
           [pendingPhone\<lparr>Certified := \<lparr>Bool = True, NullBool.Valid = True\<rparr>\<rparr>,
            certifiedPhone, boundPhone]\<rparr>))
   \<and> fst (CertifyPhoneWithCode sampleUpdateFails ''01000000001'' 123456 ([], world0)) =
       Some (internalServerErr
               (Wrap (plainError ''update failed'') ''phone Update return unexpected error''))
   \<and> filter isResolution
       (calls (CertifyPhoneWithCode sampleUpdateFails ''01000000001'' 123456 ([], world0))) =
       [Rollback_call 1]
   \<and> fst (CertifyPhoneWithCode sample ''01000000001'' 999999 ([], world0)) =
       Some (conflictErr (New ''incorrect certify code to that phone number'') incorrectCertifyCode)
   \<and> filter isPhoneWrite (calls (CertifyPhoneWithCode sample ''01000000001'' 999999 ([], world0))) = []
   \<and> filter isResolution (calls (CertifyPhoneWithCode sample ''01000000001'' 999999 ([], world0))) =
       [Rollback_call 1]"
proof -
  let ?upd = "pendingPhone\<lparr>Certified := \<lparr>Bool = True, NullBool.Valid = True\<rparr>\<rparr>"
  let ?w3 = "world0\<lparr>phones := [?upd, certifiedPhone, boundPhone]\<rparr>"
  have b: "BeginTx (txHandler sample) world0 = ((1, None), world0)"
    and g: "GetByPhoneNumber (parentPhoneCertifyRepository sample) 1 ''01000000001'' world0 =
              ((pendingPhone, None), world0)"
    and u: "Update (parentPhoneCertifyRepository sample) 1 ?upd world0 = ((?upd, None), ?w3)"
    and k: "snd (Commit (txHandler sample) 1 ?w3) = ?w3"
    by (simp_all add: sample_defs)
  have b': "BeginTx (txHandler sampleUpdateFails) world0 = ((1, None), world0)"
    and g': "GetByPhoneNumber (parentPhoneCertifyRepository sampleUpdateFails) 1 ''01000000001''
               world0 = ((pendingPhone, None), world0)"
    and u': "Update (parentPhoneCertifyRepository sampleUpdateFails) 1 ?upd world0 =
               ((?upd, Some (plainError ''update failed'')), world0)"
    by (simp_all add: sample_defs)
  have p: "\<not> certified pendingPhone" and c: "CertifyCode pendingPhone = 123456"
    by (simp_all add: certified_def pendingPhone_def)
  show ?thesis
    using p c k
      certify_uncertified_record [OF b g p refl u, of 123456]
      certify_uncertified_record [OF b' g' p refl u', of 123456]
      certify_uncertified_record [OF b g p refl u, of 999999]
    by (simp add: calls_pair)
qed

text \<open>
  C7. For a certify-phone call on a record that is already certified, the operation
  fails with the conflict \<open>phoneAlreadyCertified\<close>, whatever the supplied code; for a
  phone number with no certification record (the lookup reports \<open>rowNotExistErr\<close>), it
  fails with \<open>notFoundErr\<close>.
\<close>

theorem certify_certified_or_absent:
  assumes "BeginTx (txHandler au) w = ((tx, None), w1)"
    and "GetByPhoneNumber (parentPhoneCertifyRepository au) tx pn w1 = ((ppc, err), w2)"
  shows "(err = None \<and> certified ppc \<longrightarrow>
            fst (CertifyPhoneWithCode au pn code ([], w)) =
              Some (conflictErr (New ''this phone number is already certified'')
                      phoneAlreadyCertified))
       \<and> (\<forall>e. err = Some e \<and> rowNotExistErr e \<longrightarrow>
            fst (CertifyPhoneWithCode au pn code ([], w)) =
              Some (notFoundErr (New ''not exist phone number'')))"
proof (intro conjI impI allI)
  assume "err = None \<and> certified ppc"
  then show "fst (CertifyPhoneWithCode au pn code ([], w)) =
      Some (conflictErr (New ''this phone number is already certified'') phoneAlreadyCertified)"
    using assms certify_path_already [of au w tx w1 pn ppc w2 code] by simp
next
  fix e assume "err = Some e \<and> rowNotExistErr e"
  then show "fst (CertifyPhoneWithCode au pn code ([], w)) =
      Some (notFoundErr (New ''not exist phone number''))"
    using assms certify_path_absent [of au w tx w1 pn ppc e w2 code] by simp
qed

theorem certify_certified_or_absent_witness:
  "certified certifiedPhone
   \<and> CertifyCode certifiedPhone = 654321
   \<and> fst (CertifyPhoneWithCode sample ''01000000002'' 654321 ([], world0)) =
       Some (conflictErr (New ''this phone number is already certified'') phoneAlreadyCertified)
   \<and> fst (CertifyPhoneWithCode sample ''01000000002'' 111111 ([], world0)) =
       Some (conflictErr (New ''this phone number is already certified'') phoneAlreadyCertified)
   \<and> rowNotExistErr noRows
   \<and> fst (CertifyPhoneWithCode sample ''01000000009'' 123456 ([], world0)) =
       Some (notFoundErr (New ''not exist phone number''))"
proof -
  let ?none = "\<lparr>ParentUUID = zeroNullString, PhoneNumber = [], CertifyCode = 0,
                 Certified = zeroNullBool\<rparr>"
  have b: "BeginTx (txHandler sample) world0 = ((1, None), world0)"
    and g2: "GetByPhoneNumber (parentPhoneCertifyRepository sample) 1 ''01000000002'' world0 =
               ((certifiedPhone, None), world0)"
    and g9: "GetByPhoneNumber (parentPhoneCertifyRepository sample) 1 ''01000000009'' world0 =
               ((?none, Some noRows), world0)"
    and n: "rowNotExistErr noRows"
    by (simp_all add: sample_defs)
  have c: "certified certifiedPhone" and k: "CertifyCode certifiedPhone = 654321"
    by (simp_all add: certified_def certifiedPhone_def)
  show ?thesis
    using c k n
      certify_certified_or_absent [OF b g2, of 654321]
      certify_certified_or_absent [OF b g2, of 111111]
      certify_certified_or_absent [OF b g9, of 123456]
    by simp
qed



text \<open>
  C9, as stated, fails: with a hash handler that returns the password as it is, the
  sign-up succeeds and the account handed to the account store, and stored, has the
  plaintext as its password.
\<close>

theorem signup_plaintext_stored_counterexample:
  "GenerateHashWithMinSalt (hashHandler sampleHashIdentity) ''pw'' world0 =
     ((''pw'', None), world0)
   \<and> SignUpParent sampleDomain sampleHashIdentity
       \<lparr>UUID = [], ID = ''dad'', PW = ''pw'', Name = ''Dad''\<rparr> ''01000000002'' ([], world0) =
       ((None, \<lparr>UUID = ''p2'', ID = ''dad'', PW = ''pw'', Name = ''Dad''\<rparr>),
        ([BeginTx_call, GetByPhoneNumber_call 1 ''01000000002'',
          GenerateHashWithMinSalt_call ''pw'', GetAvailableUUID_call 1,
          StoreParentAuth_call 1 \<lparr>UUID = ''p2'', ID = ''dad'', PW = ''pw'', Name = ''Dad''\<rparr>,
          Commit_call 1],
         world0\<lparr>entropy := 8,
                accounts := [mom, \<lparr>UUID = ''p2'', ID = ''dad'', PW = ''pw'', Name = ''Dad''\<rparr>]\<rparr>))
   \<and> PW \<lparr>UUID = ''p2'', ID = ''dad'', PW = ''pw'', Name = ''Dad''\<rparr> =
       PW \<lparr>UUID = [], ID = ''dad'', PW = ''pw'', Name = ''Dad''\<rparr>"
proof -
  let ?dad = "\<lparr>UUID = [], ID = ''dad'', PW = ''pw'', Name = ''Dad''\<rparr>"
  let ?stored = "\<lparr>UUID = ''p2'', ID = ''dad'', PW = ''pw'', Name = ''Dad''\<rparr>"
  let ?w5 = "world0\<lparr>entropy := 8\<rparr>"
  let ?w6 = "world0\<lparr>entropy := 8, accounts := [mom, ?stored]\<rparr>"
  have b: "BeginTx (txHandler sampleHashIdentity) world0 = ((1, None), world0)"
    and g: "GetByPhoneNumber (parentPhoneCertifyRepository sampleHashIdentity) 1 ''01000000002''
              world0 = ((certifiedPhone, None), world0)"
    and h: "GenerateHashWithMinSalt (hashHandler sampleHashIdentity) (PW ?dad) world0 =
              ((''pw'', None), world0)"
    and a: "GetAvailableUUID (parentAuthRepository sampleHashIdentity) 1 world0 =
              (([], Some noRows), world0)"
    and r: "GenerateRandomUUID sampleDomain (?dad\<lparr>PW := ''pw'', UUID := []\<rparr>) world0 =
              (''p2'', ?w5)"
    and st: "?stored = (if Some noRows = None then ?dad\<lparr>PW := ''pw'', UUID := []\<rparr>
                        else ?dad\<lparr>PW := ''pw'', UUID := ''p2''\<rparr>)"
    and w: "?w5 = (if Some noRows = None then world0 else ?w5)"
    and s: "ParentAuthRepository.Store (parentAuthRepository sampleHashIdentity) 1 ?stored ?w5 =
              ((?stored, None), ?w6)"
    and k: "snd (Commit (txHandler sampleHashIdentity) 1 ?w6) = ?w6"
    by (simp_all add: sample_defs)
  have c: "certified certifiedPhone"
    by (simp add: certified_def certifiedPhone_def)
  from signup_path_stored [OF b g c h a r st w s] h k
  show ?thesis
    by simp
qed

text \<open>
  C9, amended. Whenever \<open>SignUpParent\<close> returns a \<open>nil\<close> error, the phone record was
  certified, hashing succeeded, and the one call to the account store, for an account
  whose password is the string \<open>h\<close> that \<open>GenerateHashWithMinSalt\<close> returned for the
  plaintext \<open>PW pa\<close>, returned a \<open>nil\<close> error before the commit. The stored password is
  whatever the hash handler returned, also when that is the plaintext itself. If hashing
  fails, the operation returns \<open>internalServerErr\<close> and makes no call to the account
  store; if the account store fails, the operation rolls back and returns the error of
  that failure.
\<close>

theorem signup_stores_hash:
  assumes "BeginTx (txHandler au) w = ((tx, None), w1)"
    and "GetByPhoneNumber (parentPhoneCertifyRepository au) tx pn w1 = ((ppc, err), w2)"
    and "GenerateHashWithMinSalt (hashHandler au) (PW pa) w2 = ((h, herr), w3)"
    and "GetAvailableUUID (parentAuthRepository au) tx w3 = ((u, uerr), w4)"
    and "GenerateRandomUUID dm (pa\<lparr>PW := h, UUID := u\<rparr>) w4 = (u', w4')"
    and "stored = (if uerr = None then pa\<lparr>PW := h, UUID := u\<rparr> else pa\<lparr>PW := h, UUID := u'\<rparr>)"
    and "w5 = (if uerr = None then w4 else w4')"
    and "ParentAuthRepository.Store (parentAuthRepository au) tx stored w5 = ((stored', serr), w6)"
  shows "(fst (fst (SignUpParent dm au pa pn ([], w))) = None \<longrightarrow>
            err = None \<and> certified ppc \<and> herr = None \<and> serr = None)
       \<and> (err = None \<and> certified ppc \<longrightarrow>
            (\<forall>e. herr = Some e \<longrightarrow>
               SignUpParent dm au pa pn ([], w) =
                 ((Some (internalServerErr (Wrap e ''failed to GenerateHashWithMinSalt'')),
                   pa\<lparr>PW := h\<rparr>),
                  ([BeginTx_call, GetByPhoneNumber_call tx pn,
                    GenerateHashWithMinSalt_call (PW pa), Rollback_call tx],
                   snd (Rollback (txHandler au) tx w3)))
             \<and> filter isAccountStore (calls (SignUpParent dm au pa pn ([], w))) = [])
          \<and> (herr = None \<longrightarrow>
               PW stored = h
             \<and> filter isAccountStore (calls (SignUpParent dm au pa pn ([], w))) =
                 [StoreParentAuth_call tx stored]
             \<and> (serr = None \<longrightarrow>
                   SignUpParent dm au pa pn ([], w) =
                     ((None, stored'),
                      ([BeginTx_call, GetByPhoneNumber_call tx pn,
                        GenerateHashWithMinSalt_call (PW pa), GetAvailableUUID_call tx,
                        StoreParentAuth_call tx stored, Commit_call tx],
                       snd (Commit (txHandler au) tx w6))))
             \<and> (\<forall>e. serr = Some e \<longrightarrow>
                   SignUpParent dm au pa pn ([], w) =
                     ((Some (storeParentAuthErr e), stored'),
                      ([BeginTx_call, GetByPhoneNumber_call tx pn,
                        GenerateHashWithMinSalt_call (PW pa), GetAvailableUUID_call tx,
                        StoreParentAuth_call tx stored, Rollback_call tx],
                       snd (Rollback (txHandler au) tx w6))))))"
proof -
  let ?R = "SignUpParent dm au pa pn ([], w)"
  have pw: "PW stored = h"
    using assms(6) by simp
  have hash_fails: "?R =
        ((Some (internalServerErr (Wrap e ''failed to GenerateHashWithMinSalt'')), pa\<lparr>PW := h\<rparr>),
         ([BeginTx_call, GetByPhoneNumber_call tx pn, GenerateHashWithMinSalt_call (PW pa),
           Rollback_call tx],
          snd (Rollback (txHandler au) tx w3)))"
    if e: "err = None" and c: "certified ppc" and f: "herr = Some e" for e
    by (rule signup_path_hash_fails [OF assms(1) assms(2) [unfolded e] c assms(3) [unfolded f]])
  have stored_ok: "?R =
        ((None, stored'),
         ([BeginTx_call, GetByPhoneNumber_call tx pn, GenerateHashWithMinSalt_call (PW pa),
           GetAvailableUUID_call tx, StoreParentAuth_call tx stored, Commit_call tx],
          snd (Commit (txHandler au) tx w6)))"
    if e: "err = None" and c: "certified ppc" and f: "herr = None" and s: "serr = None"
    by (rule signup_path_stored
          [OF assms(1) assms(2) [unfolded e] c assms(3) [unfolded f] assms(4) assms(5)
              assms(6) assms(7) assms(8) [unfolded s]])
  have store_fails: "?R =
        ((Some (storeParentAuthErr x), stored'),
         ([BeginTx_call, GetByPhoneNumber_call tx pn, GenerateHashWithMinSalt_call (PW pa),
           GetAvailableUUID_call tx, StoreParentAuth_call tx stored, Rollback_call tx],
          snd (Rollback (txHandler au) tx w6)))"
    if e: "err = None" and c: "certified ppc" and f: "herr = None" and s: "serr = Some x" for x
    by (rule signup_path_store_fails
          [OF assms(1) assms(2) [unfolded e] c assms(3) [unfolded f] assms(4) assms(5)
              assms(6) assms(7) assms(8) [unfolded s]])
  have only_if: "err = None \<and> certified ppc \<and> herr = None \<and> serr = None"
    if ok: "fst (fst ?R) = None"
  proof -
    obtain pa' s' where run: "?R = ((None, pa'), s')"
      using ok by (cases ?R) auto
    from signup_success [OF run] assms(1,2)
    have c: "err = None" "certified ppc"
      by auto
    have hn: "herr = None"
    proof (cases herr)
      case None
      then show ?thesis .
    next
      case (Some x)
      from hash_fails [OF c Some] ok show ?thesis by simp
    qed
    have sn: "serr = None"
    proof (cases serr)
      case None
      then show ?thesis .
    next
      case (Some x)
      from store_fails [OF c hn Some] ok show ?thesis by simp
    qed
    from c hn sn show ?thesis by simp
  qed
  have part1: "fst (fst ?R) = None \<longrightarrow> err = None \<and> certified ppc \<and> herr = None \<and> serr = None"
    using only_if by blast
  have part2a: "?R =
        ((Some (internalServerErr (Wrap x ''failed to GenerateHashWithMinSalt'')), pa\<lparr>PW := h\<rparr>),
         ([BeginTx_call, GetByPhoneNumber_call tx pn, GenerateHashWithMinSalt_call (PW pa),
           Rollback_call tx],
          snd (Rollback (txHandler au) tx w3)))
      \<and> filter isAccountStore (calls ?R) = []"
    if "err = None" "certified ppc" "herr = Some x" for x
    by (simp add: hash_fails [OF that] calls_pair)
  have writes: "filter isAccountStore (calls ?R) = [StoreParentAuth_call tx stored]"
    if c: "err = None" "certified ppc" "herr = None"
  proof (cases serr)
    case None
    show ?thesis by (simp add: stored_ok [OF c None] calls_pair)
  next
    case (Some x)
    show ?thesis by (simp add: store_fails [OF c Some] calls_pair)
  qed
  show ?thesis
    using part1 part2a pw writes stored_ok store_fails by blast
qed

theorem signup_stores_hash_witness:
  "certified certifiedPhone
   \<and> SignUpParent sampleDomain sample
       \<lparr>UUID = [], ID = ''dad'', PW = ''pw'', Name = ''Dad''\<rparr> ''01000000002'' ([], world0) =
       ((None, \<lparr>UUID = ''p2'', ID = ''dad'', PW = ''h:pw'', Name = ''Dad''\<rparr>),
        ([BeginTx_call, GetByPhoneNumber_call 1 ''01000000002'',
          GenerateHashWithMinSalt_call ''pw'', GetAvailableUUID_call 1,
          StoreParentAuth_call 1 \<lparr>UUID = ''p2'', ID = ''dad'', PW = ''h:pw'', Name = ''Dad''\<rparr>,
          Commit_call 1],
         world0\<lparr>entropy := 8,
                accounts := [mom, \<lparr>UUID = ''p2'', ID = ''dad'', PW = ''h:pw'', Name = ''Dad''\<rparr>]\<rparr>))
   \<and> fst (fst (SignUpParent sampleDomain sampleHashFails
       \<lparr>UUID = [], ID = ''dad'', PW = ''pw'', Name = ''Dad''\<rparr> ''01000000002'' ([], world0))) =
       Some (internalServerErr (Wrap (plainError ''hashing failed'') ''failed to GenerateHashWithMinSalt''))
   \<and> filter isAccountStore (calls (SignUpParent sampleDomain sampleHashFails
       \<lparr>UUID = [], ID = ''dad'', PW = ''pw'', Name = ''Dad''\<rparr> ''01000000002'' ([], world0))) = []
   \<and> fst (fst (SignUpParent sampleDomain sample
       \<lparr>UUID = [], ID = ''mom'', PW = ''pw'', Name = ''Mum''\<rparr> ''01000000002'' ([], world0))) =
       Some (storeParentAuthErr (duplicate ''id''))
   \<and> storeParentAuthErr (duplicate ''id'') =
       conflictErr (New ''this parent ID is already in use'') parentIDAlreadyInUse
   \<and> filter isResolution (calls (SignUpParent sampleDomain sample
       \<lparr>UUID = [], ID = ''mom'', PW = ''pw'', Name = ''Mum''\<rparr> ''01000000002'' ([], world0))) =
       [Rollback_call 1]"
proof -
  let ?dad = "\<lparr>UUID = [], ID = ''dad'', PW = ''pw'', Name = ''Dad''\<rparr>"
  let ?stored = "\<lparr>UUID = ''p2'', ID = ''dad'', PW = ''h:pw'', Name = ''Dad''\<rparr>"
  let ?mum = "\<lparr>UUID = [], ID = ''mom'', PW = ''pw'', Name = ''Mum''\<rparr>"
  let ?mum' = "\<lparr>UUID = ''p2'', ID = ''mom'', PW = ''h:pw'', Name = ''Mum''\<rparr>"
  let ?w5 = "world0\<lparr>entropy := 8\<rparr>"
  let ?w6 = "world0\<lparr>entropy := 8, accounts := [mom, ?stored]\<rparr>"
  have c: "certified certifiedPhone"
    by (simp add: certified_def certifiedPhone_def)
  have d: "storeParentAuthErr (duplicate ''id'') =
             conflictErr (New ''this parent ID is already in use'') parentIDAlreadyInUse"
    by (simp add: storeParentAuthErr_def duplicate_def plainError_def)
  have b: "BeginTx (txHandler sample) world0 = ((1, None), world0)"
    and g: "GetByPhoneNumber (parentPhoneCertifyRepository sample) 1 ''01000000002'' world0 =
              ((certifiedPhone, None), world0)"
    and h: "GenerateHashWithMinSalt (hashHandler sample) (PW ?dad) world0 =
              ((''h:pw'', None), world0)"
    and a: "GetAvailableUUID (parentAuthRepository sample) 1 world0 = (([], Some noRows), world0)"
    and r: "GenerateRandomUUID sampleDomain (?dad\<lparr>PW := ''h:pw'', UUID := []\<rparr>) world0 =
              (''p2'', ?w5)"
    and st: "?stored = (if Some noRows = None then ?dad\<lparr>PW := ''h:pw'', UUID := []\<rparr>
                        else ?dad\<lparr>PW := ''h:pw'', UUID := ''p2''\<rparr>)"
    and w: "?w5 = (if Some noRows = None then world0 else ?w5)"
    and s: "ParentAuthRepository.Store (parentAuthRepository sample) 1 ?stored ?w5 =
              ((?stored, None), ?w6)"
    and k: "snd (Commit (txHandler sample) 1 ?w6) = ?w6"
    by (simp_all add: sample_defs)
  have b1: "BeginTx (txHandler sampleHashFails) world0 = ((1, None), world0)"
    and g1: "GetByPhoneNumber (parentPhoneCertifyRepository sampleHashFails) 1 ''01000000002''
               world0 = ((certifiedPhone, None), world0)"
    and h1: "GenerateHashWithMinSalt (hashHandler sampleHashFails) (PW ?dad) world0 =
               (([], Some (plainError ''hashing failed'')), world0)"
    and a1: "GetAvailableUUID (parentAuthRepository sampleHashFails) 1 world0 =
               (([], Some noRows), world0)"
    and r1: "GenerateRandomUUID sampleDomain (?dad\<lparr>PW := [], UUID := []\<rparr>) world0 = (''p2'', ?w5)"
    and s1: "ParentAuthRepository.Store (parentAuthRepository sampleHashFails) 1
               (if Some noRows = None then ?dad\<lparr>PW := [], UUID := []\<rparr>
                else ?dad\<lparr>PW := [], UUID := ''p2''\<rparr>)
               (if Some noRows = None then world0 else ?w5) =
               ((?dad\<lparr>PW := [], UUID := ''p2''\<rparr>, None),
                ?w5\<lparr>accounts := [mom, ?dad\<lparr>PW := [], UUID := ''p2''\<rparr>]\<rparr>)"
    by (simp_all add: sample_defs)
  have h2: "GenerateHashWithMinSalt (hashHandler sample) (PW ?mum) world0 =
              ((''h:pw'', None), world0)"
    and r2: "GenerateRandomUUID sampleDomain (?mum\<lparr>PW := ''h:pw'', UUID := []\<rparr>) world0 =
               (''p2'', ?w5)"
    and st2: "?mum' = (if Some noRows = None then ?mum\<lparr>PW := ''h:pw'', UUID := []\<rparr>
                       else ?mum\<lparr>PW := ''h:pw'', UUID := ''p2''\<rparr>)"
    and s2: "ParentAuthRepository.Store (parentAuthRepository sample) 1 ?mum' ?w5 =
               ((?mum', Some (duplicate ''id'')), ?w5)"
    by (simp_all add: sample_defs)
  let ?R = "SignUpParent sampleDomain sample ?dad ''01000000002'' ([], world0)"
  let ?R1 = "SignUpParent sampleDomain sampleHashFails ?dad ''01000000002'' ([], world0)"
  let ?R2 = "SignUpParent sampleDomain sample ?mum ''01000000002'' ([], world0)"
  have "?R =
      ((None, ?stored),
       ([BeginTx_call, GetByPhoneNumber_call 1 ''01000000002'',
         GenerateHashWithMinSalt_call (PW ?dad), GetAvailableUUID_call 1,
         StoreParentAuth_call 1 ?stored, Commit_call 1],
        snd (Commit (txHandler sample) 1 ?w6)))"
    using c signup_stores_hash [OF b g h a r st w s] by blast
  then have i: "?R =
      ((None, ?stored),
       ([BeginTx_call, GetByPhoneNumber_call 1 ''01000000002'',
         GenerateHashWithMinSalt_call ''pw'', GetAvailableUUID_call 1,
         StoreParentAuth_call 1 ?stored, Commit_call 1], ?w6))"
    by (simp only: k ParentAuth.simps)
  have "?R1 =
      ((Some (internalServerErr
                (Wrap (plainError ''hashing failed'') ''failed to GenerateHashWithMinSalt'')),
        ?dad\<lparr>PW := []\<rparr>),
       ([BeginTx_call, GetByPhoneNumber_call 1 ''01000000002'',
         GenerateHashWithMinSalt_call (PW ?dad), Rollback_call 1],
        snd (Rollback (txHandler sampleHashFails) 1 world0)))
     \<and> filter isAccountStore (calls ?R1) = []"
    using c signup_stores_hash [OF b1 g1 h1 a1 r1 refl refl s1] by blast
  then have i1: "fst (fst ?R1) =
      Some (internalServerErr
              (Wrap (plainError ''hashing failed'') ''failed to GenerateHashWithMinSalt''))"
    and i1': "filter isAccountStore (calls ?R1) = []"
    by (simp_all add: calls_pair)
  have e2: "?R2 =
      ((Some (storeParentAuthErr (duplicate ''id'')), ?mum'),
       ([BeginTx_call, GetByPhoneNumber_call 1 ''01000000002'',
         GenerateHashWithMinSalt_call (PW ?mum), GetAvailableUUID_call 1,
         StoreParentAuth_call 1 ?mum', Rollback_call 1],
        snd (Rollback (txHandler sample) 1 ?w5)))"
    using c signup_stores_hash [OF b g h2 a r2 st2 w s2] by blast
  have i2: "fst (fst ?R2) = Some (storeParentAuthErr (duplicate ''id''))"
    by (simp add: e2)
  have i2': "filter isResolution (calls ?R2) = [Rollback_call 1]"
    by (simp add: e2 calls_pair)
  from c i i1 i1' i2 d i2' show ?thesis
    by (intro conjI)
qed

text \<open>
  C10. In each of the four operations, the result of \<open>Commit\<close> is not looked at: on every
  path that reaches \<open>Commit\<close>, the operation returns a \<open>nil\<close> error, whatever \<open>Commit\<close>
  returns, an error included.
\<close>

theorem commit_error_ignored:
  "(filter isCommit (calls (SendCertifyCodeToPhone dm au pn ([], w))) \<noteq> [] \<longrightarrow>
      fst (SendCertifyCodeToPhone dm au pn ([], w)) = None)
   \<and> (filter isCommit (calls (CertifyPhoneWithCode au pn code ([], w))) \<noteq> [] \<longrightarrow>
      fst (CertifyPhoneWithCode au pn code ([], w)) = None)
   \<and> (filter isCommit (calls (SignUpParent dm au pa pn ([], w))) \<noteq> [] \<longrightarrow>
      fst (fst (SignUpParent dm au pa pn ([], w))) = None)
   \<and> (filter isCommit (calls (LoginParentAuth au i pw ([], w))) \<noteq> [] \<longrightarrow>
      snd (snd (fst (LoginParentAuth au i pw ([], w)))) = None)"
  using send_commitIgnored [of dm au pn w] certify_commitIgnored [of au pn code w]
    signup_commitIgnored [of dm au pa pn w] login_commitIgnored [of au i pw w]
  by (simp add: commitIgnored_def errOfSignUp_def errOfLogin_def calls_def)

theorem commit_error_ignored_witness:
  "Commit (txHandler sampleCommitFails) 1 = (\<lambda>w. (Some (plainError ''commit failed''), w))
   \<and> filter isCommit (calls (SendCertifyCodeToPhone sampleDomain sampleCommitFails
        ''01000000009'' ([], world0))) = [Commit_call 1]
   \<and> fst (SendCertifyCodeToPhone sampleDomain sampleCommitFails ''01000000009'' ([], world0)) = None
   \<and> filter isCommit (calls (CertifyPhoneWithCode sampleCommitFails
        ''01000000001'' 123456 ([], world0))) = [Commit_call 1]
   \<and> fst (CertifyPhoneWithCode sampleCommitFails ''01000000001'' 123456 ([], world0)) = None
   \<and> filter isCommit (calls (SignUpParent sampleDomain sampleCommitFails
        \<lparr>UUID = [], ID = ''dad'', PW = ''pw'', Name = ''Dad''\<rparr> ''01000000002'' ([], world0))) =
       [Commit_call 1]
   \<and> fst (fst (SignUpParent sampleDomain sampleCommitFails
        \<lparr>UUID = [], ID = ''dad'', PW = ''pw'', Name = ''Dad''\<rparr> ''01000000002'' ([], world0))) = None
   \<and> filter isCommit (calls (LoginParentAuth sampleCommitFails ''mom'' ''secret'' ([], world0))) =
       [Commit_call 1]
   \<and> snd (snd (fst (LoginParentAuth sampleCommitFails ''mom'' ''secret'' ([], world0)))) = None"
proof -
  let ?dad = "\<lparr>UUID = [], ID = ''dad'', PW = ''pw'', Name = ''Dad''\<rparr>"
  have f: "Commit (txHandler sampleCommitFails) 1 = (\<lambda>w. (Some (plainError ''commit failed''), w))"
    by (simp add: sample_defs)
  have c1: "filter isCommit (calls (SendCertifyCodeToPhone sampleDomain sampleCommitFails
        ''01000000009'' ([], world0))) = [Commit_call 1]"
    by (simp add: run_defs sample_defs)
  have c2: "filter isCommit (calls (CertifyPhoneWithCode sampleCommitFails
        ''01000000001'' 123456 ([], world0))) = [Commit_call 1]"
    by (simp add: run_defs sample_defs)
  have c3: "filter isCommit (calls (SignUpParent sampleDomain sampleCommitFails
        ?dad ''01000000002'' ([], world0))) = [Commit_call 1]"
    by (simp add: run_defs sample_defs)
  have c4: "filter isCommit (calls (LoginParentAuth sampleCommitFails ''mom'' ''secret''
        ([], world0))) = [Commit_call 1]"
    by (simp add: run_defs sample_defs)
  show ?thesis
    using f c1 c2 c3 c4
      commit_error_ignored [of sampleDomain sampleCommitFails "''01000000009''" world0
         123456 ?dad "''mom''" "''secret''"]
      commit_error_ignored [of sampleDomain sampleCommitFails "''01000000001''" world0
         123456 ?dad "''mom''" "''secret''"]
      commit_error_ignored [of sampleDomain sampleCommitFails "''01000000002''" world0
         123456 ?dad "''mom''" "''secret''"]
    by simp
qed

end
